theory Spec2Isabelle
  imports Complex_Main
begin

section \<open>JSON values and text\<close>

text \<open>
  The values that cross the process boundaries of \<^verbatim>\<open>real_mcp_tools.py\<close>: what
  \<^verbatim>\<open>json.loads\<close> returns on the Python side and what \<^verbatim>\<open>JSON.parse\<close> returns inside the
  staged node script. An object keeps its members in text order. Numbers are integers:
  fractions and exponents are floating point on both sides and are not modelled.
  Text is \<open>string\<close>, a list of 8-bit characters.
\<close>

datatype json =
    JNull
  | JBool bool
  | JNum int
  | JStr string
  | JArr "json list"
  | JObj "(string \<times> json) list"

definition dquote :: char where "dquote = CHR 0x22"
definition backslash :: char where "backslash = CHR 0x5C"
definition squote :: char where "squote = CHR 0x27"
definition newline :: char where "newline = CHR 0x0A"

text \<open>\<^verbatim>\<open>sep.join(parts)\<close>\<close>

fun join :: "string \<Rightarrow> string list \<Rightarrow> string" where
  "join sep [] = []"
| "join sep [x] = x"
| "join sep (x # y # ys) = x @ sep @ join sep (y # ys)"

subsection \<open>Serialisers\<close>

definition digit_char :: "nat \<Rightarrow> char" where
  "digit_char d = ''0123456789'' ! d"

fun digits :: "nat \<Rightarrow> string" where
  "digits n = (if n < 10 then [digit_char n] else digits (n div 10) @ [digit_char (n mod 10)])"

declare digits.simps [simp del]

definition show_int :: "int \<Rightarrow> string" where
  "show_int i = (if i < 0 then CHR ''-'' # digits (nat (- i)) else digits (nat i))"

definition hex_char :: "nat \<Rightarrow> char" where
  "hex_char d = ''0123456789abcdef'' ! d"

definition u_escape :: "char \<Rightarrow> string" where
  "u_escape c = backslash # ''u00'' @ [hex_char (of_char c div 16), hex_char (of_char c mod 16)]"

text \<open>
  The two-character escapes both serialisers use, then \<^verbatim>\<open>\u00XX\<close> for the other
  control characters. Python's \<^verbatim>\<open>json.dumps\<close> (with its default \<^verbatim>\<open>ensure_ascii\<close>) also
  escapes every character outside the range from space to tilde.
\<close>

definition short_escape :: "char \<Rightarrow> string option" where
  "short_escape c =
     (if c = dquote then Some [backslash, dquote]
      else if c = backslash then Some [backslash, backslash]
      else if c = CHR 0x08 then Some [backslash, CHR ''b'']
      else if c = CHR 0x0C then Some [backslash, CHR ''f'']
      else if c = CHR 0x0A then Some [backslash, CHR ''n'']
      else if c = CHR 0x0D then Some [backslash, CHR ''r'']
      else if c = CHR 0x09 then Some [backslash, CHR ''t'']
      else None)"

definition js_escape :: "char \<Rightarrow> string" where
  "js_escape c =
     (case short_escape c of
        Some e \<Rightarrow> e
      | None \<Rightarrow> if (of_char c :: nat) < 0x20 then u_escape c else [c])"

definition py_escape :: "char \<Rightarrow> string" where
  "py_escape c =
     (case short_escape c of
        Some e \<Rightarrow> e
      | None \<Rightarrow> if (of_char c :: nat) < 0x20 \<or> (0x7E :: nat) < of_char c then u_escape c else [c])"

definition quoted :: "(char \<Rightarrow> string) \<Rightarrow> string \<Rightarrow> string" where
  "quoted esc s = dquote # concat (map esc s) @ [dquote]"

text \<open>
  One renderer for the three layouts in use. A layout gives the escape of a character
  and the white space after an opening bracket, after a comma, before a closing bracket
  (each by the depth of the container) and after a colon.
\<close>

record layout =
  escape :: "char \<Rightarrow> string"
  after_open :: "nat \<Rightarrow> string"
  after_comma :: "nat \<Rightarrow> string"
  before_close :: "nat \<Rightarrow> string"
  after_colon :: string

fun render :: "layout \<Rightarrow> nat \<Rightarrow> json \<Rightarrow> string" where
  "render L d JNull = ''null''"
| "render L d (JBool b) = (if b then ''true'' else ''false'')"
| "render L d (JNum n) = show_int n"
| "render L d (JStr s) = quoted (escape L) s"
| "render L d (JArr xs) =
     (if xs = [] then ''[]''
      else ''['' @ after_open L d
           @ join ('','' @ after_comma L d) (map (render L (Suc d)) xs)
           @ before_close L d @ '']'')"
| "render L d (JObj kvs) =
     (if kvs = [] then ''{}''
      else ''{'' @ after_open L d
           @ join ('','' @ after_comma L d)
               (map (\<lambda>kv. quoted (escape L) (fst kv) @ '':'' @ after_colon L
                            @ render L (Suc d) (snd kv)) kvs)
           @ before_close L d @ ''}'')"

definition indent2 :: "nat \<Rightarrow> string" where
  "indent2 d = newline # replicate (2 * d) (CHR '' '')"

text \<open>\<^verbatim>\<open>JSON.stringify(v)\<close>, \<^verbatim>\<open>JSON.stringify(v, null, 2)\<close> and \<^verbatim>\<open>json.dumps(v)\<close>.\<close>

definition compact_layout :: layout where
  "compact_layout = \<lparr>escape = js_escape, after_open = (\<lambda>d. []), after_comma = (\<lambda>d. []),
     before_close = (\<lambda>d. []), after_colon = []\<rparr>"

definition pretty_layout :: layout where
  "pretty_layout = \<lparr>escape = js_escape, after_open = (\<lambda>d. indent2 (Suc d)),
     after_comma = (\<lambda>d. indent2 (Suc d)), before_close = indent2, after_colon = '' ''\<rparr>"

definition python_layout :: layout where
  "python_layout = \<lparr>escape = py_escape, after_open = (\<lambda>d. []), after_comma = (\<lambda>d. '' ''),
     before_close = (\<lambda>d. []), after_colon = '' ''\<rparr>"

definition JSON_stringify :: "json \<Rightarrow> string" where
  "JSON_stringify v = render compact_layout 0 v"

definition JSON_stringify_2 :: "json \<Rightarrow> string" where
  "JSON_stringify_2 v = render pretty_layout 0 v"

definition json_dumps :: "json \<Rightarrow> string" where
  "json_dumps v = render python_layout 0 v"

subsection \<open>Parser\<close>

definition is_ws :: "char \<Rightarrow> bool" where
  "is_ws c \<longleftrightarrow> c = CHR '' '' \<or> c = CHR 0x09 \<or> c = CHR 0x0A \<or> c = CHR 0x0D"

definition skip_ws :: "string \<Rightarrow> string" where
  "skip_ws = dropWhile is_ws"

definition is_digit :: "char \<Rightarrow> bool" where
  "is_digit c \<longleftrightarrow> (48 :: nat) \<le> of_char c \<and> of_char c \<le> (57 :: nat)"

definition digit_val :: "char \<Rightarrow> nat" where
  "digit_val c = of_char c - 48"

definition hex_val :: "char \<Rightarrow> nat option" where
  "hex_val c =
     (let n = of_char c :: nat in
      if 48 \<le> n \<and> n \<le> 57 then Some (n - 48)
      else if 97 \<le> n \<and> n \<le> 102 then Some (n - 87)
      else if 65 \<le> n \<and> n \<le> 70 then Some (n - 55)
      else None)"

definition hex4 :: "char \<Rightarrow> char \<Rightarrow> char \<Rightarrow> char \<Rightarrow> nat option" where
  "hex4 a b c d =
     (case (hex_val a, hex_val b, hex_val c, hex_val d) of
        (Some x, Some y, Some z, Some w) \<Rightarrow> Some (((x * 16 + y) * 16 + z) * 16 + w)
      | _ \<Rightarrow> None)"

definition unescape :: "char \<Rightarrow> char option" where
  "unescape e =
     (if e = dquote then Some dquote
      else if e = backslash then Some backslash
      else if e = CHR ''/'' then Some (CHR ''/'')
      else if e = CHR ''b'' then Some (CHR 0x08)
      else if e = CHR ''f'' then Some (CHR 0x0C)
      else if e = CHR ''n'' then Some (CHR 0x0A)
      else if e = CHR ''r'' then Some (CHR 0x0D)
      else if e = CHR ''t'' then Some (CHR 0x09)
      else None)"

definition cons_fst :: "'a \<Rightarrow> ('a list \<times> 'b) option \<Rightarrow> ('a list \<times> 'b) option" where
  "cons_fst x r = (case r of None \<Rightarrow> None | Some (xs, rest) \<Rightarrow> Some (x # xs, rest))"

text \<open>
  The characters of a string literal after its opening quote, up to the closing one.
  A \<^verbatim>\<open>\uXXXX\<close> escape above \<^verbatim>\<open>\u00ff\<close> names a character outside the 8-bit alphabet of
  this model and is refused.
\<close>

fun parse_string :: "string \<Rightarrow> (string \<times> string) option" where
  "parse_string [] = None"
| "parse_string (c # cs) =
     (if c = dquote then Some ([], cs)
      else if c = backslash then
        (case cs of
           [] \<Rightarrow> None
         | e # cs' \<Rightarrow>
             if e = CHR ''u'' then
               (case cs' of
                  h1 # h2 # h3 # h4 # rest \<Rightarrow>
                    (case hex4 h1 h2 h3 h4 of
                       None \<Rightarrow> None
                     | Some n \<Rightarrow> if n < 256 then cons_fst (char_of n) (parse_string rest) else None)
                | _ \<Rightarrow> None)
             else
               (case unescape e of
                  None \<Rightarrow> None
                | Some ch \<Rightarrow> cons_fst ch (parse_string cs')))
      else if (of_char c :: nat) < 0x20 then None
      else cons_fst c (parse_string cs))"

text \<open>
  An integer literal: an optional minus sign, then \<^verbatim>\<open>0\<close> or a digit string without a
  leading zero. A fraction or an exponent after it is refused (not modelled).
\<close>

definition parse_nat :: "string \<Rightarrow> (nat \<times> string) option" where
  "parse_nat s =
     (let ds = takeWhile is_digit s; rest = dropWhile is_digit s in
      if ds = [] then None
      else if hd ds = CHR ''0'' \<and> tl ds \<noteq> [] then None
      else if rest \<noteq> [] \<and> hd rest \<in> {CHR ''.'', CHR ''e'', CHR ''E''} then None
      else Some (foldl (\<lambda>a c. 10 * a + digit_val c) 0 ds, rest))"

definition parse_number :: "string \<Rightarrow> (json \<times> string) option" where
  "parse_number s =
     (case s of
        [] \<Rightarrow> None
      | c # cs \<Rightarrow>
          if c = CHR ''-'' then
            (case parse_nat cs of None \<Rightarrow> None | Some (n, rest) \<Rightarrow> Some (JNum (- int n), rest))
          else
            (case parse_nat s of None \<Rightarrow> None | Some (n, rest) \<Rightarrow> Some (JNum (int n), rest)))"

definition parse_word :: "string \<Rightarrow> json \<Rightarrow> string \<Rightarrow> (json \<times> string) option" where
  "parse_word w v s = (if take (length w) s = w then Some (v, drop (length w) s) else None)"

text \<open>
  Recursive descent, with fuel for the nesting; \<open>json_parse\<close> gives more fuel than the
  text has characters.
\<close>

fun parse_value :: "nat \<Rightarrow> string \<Rightarrow> (json \<times> string) option"
  and parse_elements :: "nat \<Rightarrow> string \<Rightarrow> (json list \<times> string) option"
  and parse_members :: "nat \<Rightarrow> string \<Rightarrow> ((string \<times> json) list \<times> string) option"
where
  "parse_value 0 s = None"
| "parse_value (Suc n) s =
     (case skip_ws s of
        [] \<Rightarrow> None
      | c # cs \<Rightarrow>
          if c = CHR ''['' then
            (case skip_ws cs of
               [] \<Rightarrow> None
             | c' # cs' \<Rightarrow>
                 if c' = CHR '']'' then Some (JArr [], cs')
                 else (case parse_elements n cs of
                         None \<Rightarrow> None
                       | Some (xs, rest) \<Rightarrow> Some (JArr xs, rest)))
          else if c = CHR ''{'' then
            (case skip_ws cs of
               [] \<Rightarrow> None
             | c' # cs' \<Rightarrow>
                 if c' = CHR ''}'' then Some (JObj [], cs')
                 else (case parse_members n cs of
                         None \<Rightarrow> None
                       | Some (kvs, rest) \<Rightarrow> Some (JObj kvs, rest)))
          else if c = dquote then
            (case parse_string cs of
               None \<Rightarrow> None
             | Some (str, rest) \<Rightarrow> Some (JStr str, rest))
          else if c = CHR ''t'' then parse_word ''true'' (JBool True) (c # cs)
          else if c = CHR ''f'' then parse_word ''false'' (JBool False) (c # cs)
          else if c = CHR ''n'' then parse_word ''null'' JNull (c # cs)
          else parse_number (c # cs))"
| "parse_elements 0 s = None"
| "parse_elements (Suc n) s =
     (case parse_value n s of
        None \<Rightarrow> None
      | Some (v, rest) \<Rightarrow>
          (case skip_ws rest of
             [] \<Rightarrow> None
           | c # cs \<Rightarrow>
               if c = CHR '','' then cons_fst v (parse_elements n cs)
               else if c = CHR '']'' then Some ([v], cs)
               else None))"
| "parse_members 0 s = None"
| "parse_members (Suc n) s =
     (case skip_ws s of
        [] \<Rightarrow> None
      | q # s1 \<Rightarrow>
          if q \<noteq> dquote then None
          else
            (case parse_string s1 of
               None \<Rightarrow> None
             | Some (k, s2) \<Rightarrow>
                 (case skip_ws s2 of
                    [] \<Rightarrow> None
                  | colon # s3 \<Rightarrow>
                      if colon \<noteq> CHR '':'' then None
                      else
                        (case parse_value n s3 of
                           None \<Rightarrow> None
                         | Some (v, rest) \<Rightarrow>
                             (case skip_ws rest of
                                [] \<Rightarrow> None
                              | c # cs \<Rightarrow>
                                  if c = CHR '','' then cons_fst (k, v) (parse_members n cs)
                                  else if c = CHR ''}'' then Some ([(k, v)], cs)
                                  else None)))))"

definition json_parse :: "string \<Rightarrow> json option" where
  "json_parse s =
     (case parse_value (Suc (length s)) s of
        None \<Rightarrow> None
      | Some (v, rest) \<Rightarrow> if skip_ws rest = [] then Some v else None)"

subsection \<open>Conditions for reading back what was rendered\<close>

text \<open>The text after a number must not continue it.\<close>

definition delimited :: "string \<Rightarrow> bool" where
  "delimited rest \<longleftrightarrow>
     (case rest of [] \<Rightarrow> True
      | c # cs \<Rightarrow> \<not> is_digit c \<and> c \<noteq> CHR ''.'' \<and> c \<noteq> CHR ''e'' \<and> c \<noteq> CHR ''E'')"

text \<open>An escape that \<open>parse_string\<close> undoes.\<close>

definition escape_ok :: "(char \<Rightarrow> string) \<Rightarrow> bool" where
  "escape_ok esc \<longleftrightarrow> (\<forall>c t. parse_string (esc c @ t) = cons_fst c (parse_string t))"

text \<open>White space only.\<close>

definition white :: "string \<Rightarrow> bool" where
  "white w \<longleftrightarrow> (\<forall>c \<in> set w. is_ws c)"

definition good_layout :: "layout \<Rightarrow> bool" where
  "good_layout L \<longleftrightarrow>
     escape_ok (escape L) \<and> white (after_colon L) \<and>
     (\<forall>d. white (after_open L d) \<and> white (after_comma L d) \<and> white (before_close L d))"


section \<open>The staged node script\<close>

text \<open>
  \<^verbatim>\<open>call_mcp_tool\<close> writes a JavaScript program to a temporary file and runs it with
  node. The text of the program, lines 29 to 77 of \<^verbatim>\<open>real_mcp_tools.py\<close> with the
  f-string's braces and escapes resolved:
\<close>

definition unlines :: "string list \<Rightarrow> string" where
  "unlines ls = concat (map (\<lambda>l. l @ [newline]) ls)"

definition script_content :: "string \<Rightarrow> string \<Rightarrow> (string \<times> json) list \<Rightarrow> string" where
  "script_content mcp_server_path tool_name params =
     newline # unlines
      [''const { spawn } = require('child_process');'',
       [],
       ''const serverProcess = spawn('node', ['' @ [squote] @ mcp_server_path @ ''/index.js'], {'',
       ''    stdio: ['pipe', 'pipe', 'pipe']'',
       ''});'',
       [],
       ''const request = {'',
       ''    jsonrpc: '2.0','',
       ''    id: 1,'',
       ''    method: 'tools/call','',
       ''    params: {'',
       ''        name: '' @ [squote] @ tool_name @ [squote] @ '','',
       ''        arguments: '' @ json_dumps (JObj params),
       ''    }'',
       ''};'',
       [],
       ''serverProcess.stdin.write(JSON.stringify(request) + '' @ [squote, backslash] @ ''n');'',
       ''serverProcess.stdin.end();'',
       [],
       ''let output = '' @ [squote, squote] @ '';'',
       ''serverProcess.stdout.on('data', (data) => {'',
       ''    output += data.toString();'',
       ''});'',
       [],
       ''serverProcess.stderr.on('data', (data) => {'',
       ''    console.error('MCP Error:', data.toString());'',
       ''});'',
       [],
       ''serverProcess.on('close', (code) => {'',
       ''    try {'',
       ''        const lines = output.split('' @ [squote, backslash] @ ''n').filter(line => line.trim());'',
       ''        for (const line of lines) {'',
       ''            try {'',
       ''                const parsed = JSON.parse(line);'',
       ''                if (parsed.result) {'',
       ''                    console.log(JSON.stringify(parsed.result, null, 2));'',
       ''                    return;'',
       ''                }'',
       ''            } catch (e) {'',
       ''                // Not JSON, continue'',
       ''            }'',
       ''        }'',
       ''        console.log(JSON.stringify({ error: 'No valid response found', raw_output: output }, null, 2));'',
       ''    } catch (error) {'',
       ''        console.log(JSON.stringify({ error: error.message, raw_output: output }, null, 2));'',
       ''    }'',
       ''});'']"

subsection \<open>The close handler\<close>

text \<open>\<^verbatim>\<open>output.split('\n')\<close>\<close>

fun split :: "char \<Rightarrow> string \<Rightarrow> string list" where
  "split sep [] = [[]]"
| "split sep (c # cs) =
     (if c = sep then [] # split sep cs
      else (case split sep cs of [] \<Rightarrow> [[c]] | l # ls \<Rightarrow> (c # l) # ls))"

text \<open>
  \<^verbatim>\<open>line.trim()\<close> strips white space and line terminators from both ends; among 8-bit
  characters these are TAB, LF, VT, FF, CR, space and the no-break space. The filter
  keeps a line whose trimmed text is truthy, that is, not empty.
\<close>

definition js_space :: "char \<Rightarrow> bool" where
  "js_space c \<longleftrightarrow> c \<in> {CHR 0x09, CHR 0x0A, CHR 0x0B, CHR 0x0C, CHR 0x0D, CHR 0x20, CHR 0xA0}"

definition trim :: "string \<Rightarrow> string" where
  "trim s = rev (dropWhile js_space (rev (dropWhile js_space s)))"

definition script_lines :: "string \<Rightarrow> string list" where
  "script_lines output = filter (\<lambda>line. trim line \<noteq> []) (split newline output)"

text \<open>
  \<^verbatim>\<open>parsed.result\<close>: reading a property of \<^verbatim>\<open>null\<close> throws a TypeError; a number, a
  boolean, a string and an array have no such property; an object gives the member
  (the last one, where the text repeated the key) or \<^verbatim>\<open>undefined\<close>.
\<close>

datatype js_lookup = Throws | Undefined | Found json

definition result_of :: "json \<Rightarrow> js_lookup" where
  "result_of parsed =
     (case parsed of
        JNull \<Rightarrow> Throws
      | JObj kvs \<Rightarrow> (case map_of (rev kvs) ''result'' of None \<Rightarrow> Undefined | Some v \<Rightarrow> Found v)
      | _ \<Rightarrow> Undefined)"

text \<open>JavaScript's truthiness, as \<^verbatim>\<open>if (parsed.result)\<close> tests it.\<close>

fun js_truthy :: "json \<Rightarrow> bool" where
  "js_truthy JNull = False"
| "js_truthy (JBool b) = b"
| "js_truthy (JNum n) = (n \<noteq> 0)"
| "js_truthy (JStr s) = (s \<noteq> [])"
| "js_truthy (JArr xs) = True"
| "js_truthy (JObj kvs) = True"

text \<open>
  The loop of lines 61 to 71. \<open>parse\<close> is \<^verbatim>\<open>JSON.parse\<close>, with \<open>None\<close> for a thrown
  SyntaxError; the inner \<^verbatim>\<open>catch\<close> swallows it, and the TypeError of \<open>result_of\<close>, and
  the loop goes on to the next line.
\<close>

fun scan :: "(string \<Rightarrow> json option) \<Rightarrow> string list \<Rightarrow> json option" where
  "scan parse [] = None"
| "scan parse (line # lines) =
     (case parse line of
        None \<Rightarrow> scan parse lines
      | Some parsed \<Rightarrow>
          (case result_of parsed of
             Found r \<Rightarrow> if js_truthy r then Some r else scan parse lines
           | _ \<Rightarrow> scan parse lines))"

definition console_log :: "string \<Rightarrow> string" where
  "console_log s = s @ [newline]"

text \<open>What the handler of the server's \<^verbatim>\<open>close\<close> event prints. It never reads \<^verbatim>\<open>code\<close>.\<close>

definition on_close :: "(string \<Rightarrow> json option) \<Rightarrow> string \<Rightarrow> string" where
  "on_close parse output =
     (case scan parse (script_lines output) of
        Some r \<Rightarrow> console_log (JSON_stringify_2 r)
      | None \<Rightarrow>
          console_log (JSON_stringify_2
            (JObj [(''error'', JStr ''No valid response found''), (''raw_output'', JStr output)])))"

text \<open>\<^verbatim>\<open>console.error('MCP Error:', data.toString())\<close>, once per chunk of the server's stderr.\<close>

definition relay :: "string \<Rightarrow> string" where
  "relay chunk = ''MCP Error: '' @ chunk @ [newline]"

subsection \<open>Processes\<close>

text \<open>
  Two processes take part in a call: the node interpreter that \<^verbatim>\<open>subprocess.run\<close>
  starts on the staged script, and the MCP server that the script starts at line 32.
\<close>

datatype proc = Node_script | Mcp_server

datatype exn_class =
    TimeoutExpired | OSError | TypeError | AttributeError | KeyError | IndexError
  | ValueError | ZeroDivisionError

datatype exn = Raised exn_class string

fun class_of :: "exn \<Rightarrow> exn_class" where
  "class_of (Raised c m) = c"

text \<open>\<^verbatim>\<open>str(e)\<close>\<close>

fun str_exn :: "exn \<Rightarrow> string" where
  "str_exn (Raised c m) = m"

text \<open>
  How the process started by \<^verbatim>\<open>subprocess.run\<close> ends: it cannot be started, it exits
  after some seconds with a return code, its stdout and its stderr, or it never exits.
  \<open>left_at_exit\<close> are the processes it started that still run when it exits by itself,
  \<open>alive_at_timeout\<close> those that run when the timeout fires.
\<close>

datatype child_end =
    Launch_fails exn
  | Exits_after nat int string string
  | Never_exits

record child_run =
  ending :: child_end
  left_at_exit :: "proc set"
  alive_at_timeout :: "proc set"

text \<open>
  The server, seen from the script: its \<^verbatim>\<open>close\<close> event comes after some seconds, with
  an exit code (\<open>None\<close> when a signal ended it), all of its stdout and the chunks of its
  stderr; or the event never comes.
\<close>

datatype server_run =
    Server_closes nat "int option" string "string list"
  | Server_hangs

text \<open>
  The run of the script against such a server. Node exits with code 0 once the handler
  has printed; until then the script only waits, and the server is alive.
\<close>

definition mcp_script :: "(string \<Rightarrow> json option) \<Rightarrow> server_run \<Rightarrow> child_run" where
  "mcp_script parse srv =
     (case srv of
        Server_closes t code output errs \<Rightarrow>
          \<lparr>ending = Exits_after t 0 (on_close parse output) (concat (map relay errs)),
           left_at_exit = {}, alive_at_timeout = {Mcp_server}\<rparr>
      | Server_hangs \<Rightarrow>
          \<lparr>ending = Never_exits, left_at_exit = {}, alive_at_timeout = {Mcp_server}\<rparr>)"

section \<open>call_mcp_tool\<close>

record world =
  files :: "string \<Rightarrow> string option"
  procs :: "proc set"

text \<open>
  \<^verbatim>\<open>subprocess.run(..., timeout=t)\<close>: a child that is still running when the timeout
  fires is killed and waited for, then TimeoutExpired is raised. Only the child itself is
  killed: what it started stays.
\<close>

definition subprocess_run ::
  "nat \<Rightarrow> child_run \<Rightarrow> world \<Rightarrow> (exn + int \<times> string \<times> string) \<times> world" where
  "subprocess_run timeout c w =
     (let exited = w\<lparr>procs := (insert Node_script (procs w) \<union> left_at_exit c) - {Node_script}\<rparr>;
          killed = w\<lparr>procs := (insert Node_script (procs w) \<union> alive_at_timeout c) - {Node_script}\<rparr>;
          expired = Raised TimeoutExpired ''Command timed out''
      in case ending c of
           Launch_fails e \<Rightarrow> (Inl e, w)
         | Exits_after t returncode out err \<Rightarrow>
             if t \<le> timeout then (Inr (returncode, out, err), exited) else (Inl expired, killed)
         | Never_exits \<Rightarrow> (Inl expired, killed))"

text \<open>
  What the operating system does to one call: the environment variable, the temporary
  file (\<^verbatim>\<open>NamedTemporaryFile\<close> raises or gives the path of the new file), whether writing
  and unlinking raise, and what node does with a script text.
\<close>

record os_env =
  MCP_SERVER_PATH :: "string option"
  NamedTemporaryFile :: "exn + string"
  write_error :: "exn option"
  node :: "string \<Rightarrow> child_run"
  unlink_error :: "exn option"

definition default_server_path :: string where
  "default_server_path = ''/Users/barryvelasquez/projects/simple_task_mcp/mcp_server/build''"

text \<open>\<^verbatim>\<open>json.loads\<close>, with \<open>None\<close> for JSONDecodeError.\<close>

definition json_loads :: "string \<Rightarrow> json option" where
  "json_loads = json_parse"

text \<open>The body of the \<^verbatim>\<open>try\<close>, lines 80 to 102.\<close>

definition try_body :: "os_env \<Rightarrow> string \<Rightarrow> world \<Rightarrow> (exn + json) \<times> world" where
  "try_body os script w =
     (case NamedTemporaryFile os of
        Inl e \<Rightarrow> (Inl e, w)
      | Inr script_path \<Rightarrow>
          (case write_error os of
             Some e \<Rightarrow> (Inl e, w\<lparr>files := (files w)(script_path \<mapsto> [])\<rparr>)
           | None \<Rightarrow>
               (case subprocess_run 30 (node os script)
                       (w\<lparr>files := (files w)(script_path \<mapsto> script)\<rparr>) of
                  (Inl e, w') \<Rightarrow> (Inl e, w')
                | (Inr (returncode, stdout, stderr), w') \<Rightarrow>
                    (case unlink_error os of
                       Some e \<Rightarrow> (Inl e, w')
                     | None \<Rightarrow>
                         (let w'' = w'\<lparr>files := (files w')(script_path := None)\<rparr> in
                          if returncode = 0 then
                            (case json_loads stdout of
                               Some v \<Rightarrow> (Inr v, w'')
                             | None \<Rightarrow>
                                 (Inr (JObj [(''error'', JStr ''Failed to parse MCP response''),
                                             (''raw_output'', JStr stdout)]), w''))
                          else
                            (Inr (JObj [(''error'', JStr (''MCP call failed: '' @ stderr)),
                                        (''return_code'', JNum returncode)]), w''))))))"

text \<open>
  The whole function: the script text is built before the \<^verbatim>\<open>try\<close>; the two handlers
  turn every exception of the body into a mapping.
\<close>

definition call_mcp_tool ::
  "os_env \<Rightarrow> string \<Rightarrow> (string \<times> json) list \<Rightarrow> world \<Rightarrow> (exn + json) \<times> world" where
  "call_mcp_tool os tool_name params w =
     (let mcp_server_path = (case MCP_SERVER_PATH os of Some p \<Rightarrow> p | None \<Rightarrow> default_server_path);
          script = script_content mcp_server_path tool_name params
      in case try_body os script w of
           (Inl e, w') \<Rightarrow>
             if class_of e = TimeoutExpired
             then (Inr (JObj [(''error'', JStr ''MCP call timed out'')]), w')
             else (Inr (JObj [(''error'', JStr (''Unexpected error: '' @ str_exn e))]), w')
         | (Inr v, w') \<Rightarrow> (Inr v, w'))"

subsection \<open>A machine where everything works\<close>

text \<open>
  Nothing exists and nothing runs before the call; the temporary file can be made,
  written and unlinked; node runs the staged script against the given server.
\<close>

definition quiet_world :: world where
  "quiet_world = \<lparr>files = Map.empty, procs = {}\<rparr>"

definition plain_os :: "child_run \<Rightarrow> os_env" where
  "plain_os c =
     \<lparr>MCP_SERVER_PATH = None, NamedTemporaryFile = Inr ''/tmp/tmpk3v9x2.js'', write_error = None,
      node = (\<lambda>script. c), unlink_error = None\<rparr>"

definition working_os :: "server_run \<Rightarrow> os_env" where
  "working_os srv = plain_os (mcp_script json_parse srv)"

text \<open>A node process that exits by itself after one second and leaves nothing behind.\<close>

definition node_exits :: "int \<Rightarrow> string \<Rightarrow> string \<Rightarrow> child_run" where
  "node_exits returncode out err =
     \<lparr>ending = Exits_after 1 returncode out err, left_at_exit = {}, alive_at_timeout = {}\<rparr>"

text \<open>
  A server that prints a result, writes \<^verbatim>\<open>boom\<close> to its stderr and exits with code 1.
\<close>

definition crashed_server :: server_run where
  \<open>crashed_server = Server_closes 1 (Some 1) ''{"result":{"ok":true}}'' [''boom'']\<close>

text \<open>The child is still running when the timeout of 30 seconds fires.\<close>

definition times_out :: "child_run \<Rightarrow> bool" where
  "times_out c =
     (case ending c of
        Launch_fails e \<Rightarrow> False
      | Exits_after t returncode out err \<Rightarrow> 30 < t
      | Never_exits \<Rightarrow> True)"



definition staged_script :: "os_env \<Rightarrow> string \<Rightarrow> (string \<times> json) list \<Rightarrow> string" where
  "staged_script os tool_name params =
     script_content (case MCP_SERVER_PATH os of Some p \<Rightarrow> p | None \<Rightarrow> default_server_path)
       tool_name params"

text \<open>
  A line that ends the scan: it parses, and its \<^verbatim>\<open>result\<close> is there and truthy.
\<close>

definition qualifies :: "(string \<Rightarrow> json option) \<Rightarrow> string \<Rightarrow> bool" where
  "qualifies parse line =
     (case parse line of
        None \<Rightarrow> False
      | Some parsed \<Rightarrow> (case result_of parsed of Found r \<Rightarrow> js_truthy r | _ \<Rightarrow> False))"

text \<open>
  A server that answers with two JSON lines, each with a \<^verbatim>\<open>result\<close> key; the first
  result is the number 0.
\<close>

definition first_answer :: string where
  \<open>first_answer = ''{"jsonrpc":"2.0","id":1,"result":0}''\<close>

definition second_answer :: string where
  \<open>second_answer = ''{"jsonrpc":"2.0","id":2,"result":{"a":1}}''\<close>

definition two_answers :: server_run where
  "two_answers = Server_closes 1 (Some 0) (first_answer @ [newline] @ second_answer @ [newline]) []"

text \<open>A server that logs around its answer and prints a second answer later.\<close>

definition chatty_answer :: string where
  \<open>chatty_answer = ''{"jsonrpc":"2.0","id":1,"result":{"content":[]}}''\<close>

definition late_answer :: string where
  \<open>late_answer = ''{"result":{"late":true}}''\<close>

definition chatty_output :: string where
  "chatty_output =
     ''server listening'' @ [newline] @ chatty_answer @ [newline] @ ''done'' @ [newline]
       @ late_answer @ [newline]"

definition chatty_server :: server_run where
  "chatty_server = Server_closes 2 (Some 0) chatty_output [''warming up'']"

text \<open>A server that only logs.\<close>

definition silent_server :: server_run where
  "silent_server = Server_closes 1 (Some 0) ''server listening\<newline>'' []"

section \<open>Python values and operations used by the tool functions\<close>

text \<open>
  The tool functions read whatever \<^verbatim>\<open>call_mcp_tool\<close> returned, with no check of its
  shape: every operation below raises, as Python does, when the value has the wrong
  type. A Python value is a \<open>json\<close> value here (\<open>JNull\<close> is \<^verbatim>\<open>None\<close>). The message of
  an exception that the interpreter raises is CPython's wording; no property below
  depends on it. Text operations are exact on ASCII text.
\<close>

definition py_bind :: "exn + 'a \<Rightarrow> ('a \<Rightarrow> exn + 'b) \<Rightarrow> exn + 'b" where
  "py_bind m f = (case m of Inl e \<Rightarrow> Inl e | Inr x \<Rightarrow> f x)"

definition raise :: "exn_class \<Rightarrow> string \<Rightarrow> exn + 'a" where
  "raise c m = Inl (Raised c m)"

fun py_foldM :: "('s \<Rightarrow> 'a \<Rightarrow> exn + 's) \<Rightarrow> 's \<Rightarrow> 'a list \<Rightarrow> exn + 's" where
  "py_foldM f s [] = Inr s"
| "py_foldM f s (x # xs) = (case f s x of Inl e \<Rightarrow> Inl e | Inr s' \<Rightarrow> py_foldM f s' xs)"

text \<open>
  \<^verbatim>\<open>try: ... except Exception as e: return f"<prefix>{str(e)}"\<close>, the frame of every
  tool function. The result is still a sum: \<open>Inl\<close> would be an exception that escapes.
\<close>

definition except_Exception :: "string \<Rightarrow> exn + string \<Rightarrow> exn + string" where
  "except_Exception prefix body =
     (case body of Inl e \<Rightarrow> Inr (prefix @ str_exn e) | Inr s \<Rightarrow> Inr s)"

definition type_name :: "json \<Rightarrow> string" where
  "type_name v =
     (case v of JNull \<Rightarrow> ''NoneType'' | JBool b \<Rightarrow> ''bool'' | JNum n \<Rightarrow> ''int''
      | JStr s \<Rightarrow> ''str'' | JArr xs \<Rightarrow> ''list'' | JObj kvs \<Rightarrow> ''dict'')"

text \<open>
  A dict built from the members of a JSON object in text order: a repeated key keeps
  its first place and takes the last value.
\<close>

fun dict_set :: "'k \<Rightarrow> 'v \<Rightarrow> ('k \<times> 'v) list \<Rightarrow> ('k \<times> 'v) list" where
  "dict_set k v [] = [(k, v)]"
| "dict_set k v (p # ps) = (if fst p = k then (k, v) # ps else p # dict_set k v ps)"

definition as_dict :: "(string \<times> json) list \<Rightarrow> (string \<times> json) list" where
  "as_dict kvs = foldl (\<lambda>d kv. dict_set (fst kv) (snd kv) d) [] kvs"

fun is_substring :: "string \<Rightarrow> string \<Rightarrow> bool" where
  "is_substring p [] = (p = [])"
| "is_substring p (c # cs) = (take (length p) (c # cs) = p \<or> is_substring p cs)"

text \<open>\<^verbatim>\<open>bool(v)\<close>\<close>

fun py_truthy :: "json \<Rightarrow> bool" where
  "py_truthy JNull = False"
| "py_truthy (JBool b) = b"
| "py_truthy (JNum n) = (n \<noteq> 0)"
| "py_truthy (JStr s) = (s \<noteq> [])"
| "py_truthy (JArr xs) = (xs \<noteq> [])"
| "py_truthy (JObj kvs) = (kvs \<noteq> [])"

text \<open>\<^verbatim>\<open>key in v\<close>, for a string key\<close>

definition py_contains :: "string \<Rightarrow> json \<Rightarrow> exn + bool" where
  "py_contains k v =
     (case v of
        JObj kvs \<Rightarrow> Inr (k \<in> fst ` set kvs)
      | JArr xs \<Rightarrow> Inr (JStr k \<in> set xs)
      | JStr s \<Rightarrow> Inr (is_substring k s)
      | _ \<Rightarrow> raise TypeError (''argument of type '' @ [squote] @ type_name v @ [squote] @ '' is not iterable''))"

text \<open>\<^verbatim>\<open>v[key]\<close>, for a string key\<close>

definition py_getitem :: "json \<Rightarrow> string \<Rightarrow> exn + json" where
  "py_getitem v k =
     (case v of
        JObj kvs \<Rightarrow>
          (case map_of (as_dict kvs) k of
             Some x \<Rightarrow> Inr x
           | None \<Rightarrow> raise KeyError ([squote] @ k @ [squote]))
      | JArr xs \<Rightarrow> raise TypeError ''list indices must be integers or slices, not str''
      | JStr s \<Rightarrow> raise TypeError (''string indices must be integers, not '' @ [squote] @ ''str'' @ [squote])
      | _ \<Rightarrow> raise TypeError ([squote] @ type_name v @ [squote] @ '' object is not subscriptable''))"

text \<open>\<^verbatim>\<open>v[0]\<close>\<close>

definition py_first :: "json \<Rightarrow> exn + json" where
  "py_first v =
     (case v of
        JArr xs \<Rightarrow> (case xs of [] \<Rightarrow> raise IndexError ''list index out of range'' | x # _ \<Rightarrow> Inr x)
      | JStr s \<Rightarrow> (case s of [] \<Rightarrow> raise IndexError ''string index out of range'' | c # _ \<Rightarrow> Inr (JStr [c]))
      | JObj kvs \<Rightarrow> raise KeyError ''0''
      | _ \<Rightarrow> raise TypeError ([squote] @ type_name v @ [squote] @ '' object is not subscriptable''))"

text \<open>\<^verbatim>\<open>len(v)\<close>\<close>

definition py_len :: "json \<Rightarrow> exn + nat" where
  "py_len v =
     (case v of
        JStr s \<Rightarrow> Inr (length s)
      | JArr xs \<Rightarrow> Inr (length xs)
      | JObj kvs \<Rightarrow> Inr (length (as_dict kvs))
      | _ \<Rightarrow> raise TypeError (''object of type '' @ [squote] @ type_name v @ [squote] @ '' has no len()''))"

text \<open>\<^verbatim>\<open>v.get(key, default)\<close>: only a dict has the method.\<close>

definition py_get :: "json \<Rightarrow> string \<Rightarrow> json \<Rightarrow> exn + json" where
  "py_get v k dflt =
     (case v of
        JObj kvs \<Rightarrow> Inr (case map_of (as_dict kvs) k of Some x \<Rightarrow> x | None \<Rightarrow> dflt)
      | _ \<Rightarrow> raise AttributeError ([squote] @ type_name v @ [squote] @ '' object has no attribute ''
                                     @ [squote] @ ''get'' @ [squote]))"

text \<open>\<^verbatim>\<open>for x in v\<close>: the elements of a list, the characters of a string, the keys of a dict.\<close>

definition py_iter :: "json \<Rightarrow> exn + json list" where
  "py_iter v =
     (case v of
        JArr xs \<Rightarrow> Inr xs
      | JStr s \<Rightarrow> Inr (map (\<lambda>c. JStr [c]) s)
      | JObj kvs \<Rightarrow> Inr (map (\<lambda>kv. JStr (fst kv)) (as_dict kvs))
      | _ \<Rightarrow> raise TypeError ([squote] @ type_name v @ [squote] @ '' object is not iterable''))"

text \<open>A method of \<^verbatim>\<open>str\<close> called on a value: any other type has no such attribute.\<close>

definition str_method :: "string \<Rightarrow> json \<Rightarrow> exn + string" where
  "str_method name v =
     (case v of
        JStr s \<Rightarrow> Inr s
      | _ \<Rightarrow> raise AttributeError ([squote] @ type_name v @ [squote] @ '' object has no attribute ''
                                     @ [squote] @ name @ [squote]))"

text \<open>\<^verbatim>\<open>v[:n]\<close>\<close>

definition py_slice_to :: "nat \<Rightarrow> json \<Rightarrow> exn + json" where
  "py_slice_to n v =
     (case v of
        JStr s \<Rightarrow> Inr (JStr (take n s))
      | JArr xs \<Rightarrow> Inr (JArr (take n xs))
      | JObj kvs \<Rightarrow> raise TypeError (''unhashable type: '' @ [squote] @ ''slice'' @ [squote])
      | _ \<Rightarrow> raise TypeError ([squote] @ type_name v @ [squote] @ '' object is not subscriptable''))"

subsection \<open>Text\<close>

definition is_lower :: "char \<Rightarrow> bool" where
  "is_lower c \<longleftrightarrow> (97 :: nat) \<le> of_char c \<and> of_char c \<le> (122 :: nat)"

definition is_upper :: "char \<Rightarrow> bool" where
  "is_upper c \<longleftrightarrow> (65 :: nat) \<le> of_char c \<and> of_char c \<le> (90 :: nat)"

definition to_upper :: "char \<Rightarrow> char" where
  "to_upper c = (if is_lower c then char_of (of_char c - (32 :: nat)) else c)"

definition to_lower :: "char \<Rightarrow> char" where
  "to_lower c = (if is_upper c then char_of (of_char c + (32 :: nat)) else c)"

text \<open>
  \<^verbatim>\<open>s.title()\<close>: a letter after a letter is lowered, any other letter is raised.
\<close>

fun title_from :: "bool \<Rightarrow> string \<Rightarrow> string" where
  "title_from after_letter [] = []"
| "title_from after_letter (c # cs) =
     (if after_letter then to_lower c else to_upper c) # title_from (is_lower c \<or> is_upper c) cs"

definition title :: "string \<Rightarrow> string" where
  "title s = title_from False s"

text \<open>\<^verbatim>\<open>s.replace('_', ' ')\<close>\<close>

definition replace_underscores :: "string \<Rightarrow> string" where
  "replace_underscores s = map (\<lambda>c. if c = CHR ''_'' then CHR '' '' else c) s"

text \<open>\<^verbatim>\<open>s.strip()\<close>\<close>

definition py_space :: "char \<Rightarrow> bool" where
  "py_space c \<longleftrightarrow>
     c \<in> {CHR 0x09, CHR 0x0A, CHR 0x0B, CHR 0x0C, CHR 0x0D, CHR 0x1C, CHR 0x1D, CHR 0x1E, CHR 0x1F,
          CHR 0x20, CHR 0x85, CHR 0xA0}"

definition strip :: "string \<Rightarrow> string" where
  "strip s = rev (dropWhile py_space (rev (dropWhile py_space s)))"

text \<open>\<^verbatim>\<open>s.split('@')[0]\<close>\<close>

definition before_at :: "string \<Rightarrow> string" where
  "before_at s = takeWhile (\<lambda>c. c \<noteq> CHR ''@'') s"

text \<open>
  \<^verbatim>\<open>repr\<close> of a string: single quotes, unless the text has a single quote and no
  double quote; the quote in use, the backslash, TAB, LF and CR get a backslash, the
  other unprintable characters are written \<^verbatim>\<open>\xNN\<close>.
\<close>

definition unprintable :: "char \<Rightarrow> bool" where
  "unprintable c \<longleftrightarrow>
     (of_char c :: nat) < 0x20 \<or> ((0x7F :: nat) \<le> of_char c \<and> of_char c \<le> (0xA0 :: nat))
       \<or> c = CHR 0xAD"

definition repr_char :: "char \<Rightarrow> char \<Rightarrow> string" where
  "repr_char q c =
     (if c = q \<or> c = backslash then [backslash, c]
      else if c = CHR 0x09 then [backslash, CHR ''t'']
      else if c = CHR 0x0A then [backslash, CHR ''n'']
      else if c = CHR 0x0D then [backslash, CHR ''r'']
      else if unprintable c then
        [backslash, CHR ''x'', hex_char (of_char c div 16), hex_char (of_char c mod 16)]
      else [c])"

definition repr_str :: "string \<Rightarrow> string" where
  "repr_str s =
     (let q = (if squote \<in> set s \<and> dquote \<notin> set s then dquote else squote)
      in q # concat (map (repr_char q) s) @ [q])"

fun py_repr :: "json \<Rightarrow> string" where
  "py_repr JNull = ''None''"
| "py_repr (JBool b) = (if b then ''True'' else ''False'')"
| "py_repr (JNum n) = show_int n"
| "py_repr (JStr s) = repr_str s"
| "py_repr (JArr xs) = ''['' @ join '', '' (map py_repr xs) @ '']''"
| "py_repr (JObj kvs) =
     ''{'' @ join '', '' (map (\<lambda>kv. repr_str (fst kv) @ '': '' @ py_repr (snd kv)) kvs) @ ''}''"

text \<open>\<^verbatim>\<open>str(v)\<close>, which is what an f-string puts for \<^verbatim>\<open>{v}\<close>.\<close>

definition py_str :: "json \<Rightarrow> string" where
  "py_str v =
     (case v of
        JStr s \<Rightarrow> s
      | JObj kvs \<Rightarrow> py_repr (JObj (as_dict kvs))
      | _ \<Rightarrow> py_repr v)"

text \<open>\<^verbatim>\<open>a or b\<close>\<close>

definition py_or :: "json \<Rightarrow> json \<Rightarrow> json" where
  "py_or a b = (if py_truthy a then a else b)"

subsection \<open>Numbers\<close>

text \<open>
  \<^verbatim>\<open>a / b\<close> on integers raises for a zero divisor. The quotient is kept exact here; Python
  rounds it to a double, and the text that \<^verbatim>\<open>:.1f\<close> makes of that double is a parameter
  \<open>fmt\<close> of the functions below.
\<close>

definition py_truediv :: "nat \<Rightarrow> nat \<Rightarrow> exn + rat" where
  "py_truediv a b = (if b = 0 then raise ZeroDivisionError ''division by zero'' else Inr (of_nat a / of_nat b))"

subsection \<open>Dicts keyed by values\<close>

text \<open>
  Only \<^verbatim>\<open>None\<close>, booleans, integers and strings can be keys; \<^verbatim>\<open>True\<close> and \<^verbatim>\<open>1\<close> are the
  same key, as are \<^verbatim>\<open>False\<close> and \<^verbatim>\<open>0\<close>.
\<close>

definition hashable :: "json \<Rightarrow> exn + unit" where
  "hashable v =
     (case v of
        JArr xs \<Rightarrow> raise TypeError (''unhashable type: '' @ [squote] @ ''list'' @ [squote])
      | JObj kvs \<Rightarrow> raise TypeError (''unhashable type: '' @ [squote] @ ''dict'' @ [squote])
      | _ \<Rightarrow> Inr ())"

definition key_of :: "json \<Rightarrow> json" where
  "key_of v = (case v of JBool b \<Rightarrow> JNum (if b then 1 else 0) | _ \<Rightarrow> v)"

fun key_lookup :: "json \<Rightarrow> (json \<times> 'v) list \<Rightarrow> 'v option" where
  "key_lookup k [] = None"
| "key_lookup k (p # ps) = (if key_of (fst p) = key_of k then Some (snd p) else key_lookup k ps)"

fun key_store :: "json \<Rightarrow> 'v \<Rightarrow> (json \<times> 'v) list \<Rightarrow> (json \<times> 'v) list" where
  "key_store k v [] = [(k, v)]"
| "key_store k v (p # ps) =
     (if key_of (fst p) = key_of k then (fst p, v) # ps else p # key_store k v ps)"

text \<open>\<^verbatim>\<open>counts[k] = counts.get(k, 0) + 1\<close>\<close>

definition count_up :: "json \<Rightarrow> (json \<times> nat) list \<Rightarrow> exn + (json \<times> nat) list" where
  "count_up k counts =
     py_bind (hashable k) (\<lambda>_.
       Inr (key_store k (case key_lookup k counts of None \<Rightarrow> 1 | Some c \<Rightarrow> c + 1) counts))"

subsection \<open>Sorting\<close>

fun insert_by :: "('a \<Rightarrow> 'a \<Rightarrow> bool) \<Rightarrow> 'a \<Rightarrow> 'a list \<Rightarrow> 'a list" where
  "insert_by ahead x [] = [x]"
| "insert_by ahead x (y # ys) = (if ahead y x then y # insert_by ahead x ys else x # y # ys)"

text \<open>A stable sort: \<open>ahead y x\<close> says that \<open>y\<close> must stay in front of a later \<open>x\<close>.\<close>

definition sort_by :: "('a \<Rightarrow> 'a \<Rightarrow> bool) \<Rightarrow> 'a list \<Rightarrow> 'a list" where
  "sort_by ahead xs = foldl (\<lambda>sorted x. insert_by ahead x sorted) [] xs"

fun str_le :: "string \<Rightarrow> string \<Rightarrow> bool" where
  "str_le [] t = True"
| "str_le (c # cs) [] = False"
| "str_le (c # cs) (d # ds) =
     ((of_char c :: nat) < of_char d \<or> (c = d \<and> str_le cs ds))"

definition num_of :: "json \<Rightarrow> int option" where
  "num_of v = (case v of JNum n \<Rightarrow> Some n | JBool b \<Rightarrow> Some (if b then 1 else 0) | _ \<Rightarrow> None)"

definition str_of :: "json \<Rightarrow> string option" where
  "str_of v = (case v of JStr s \<Rightarrow> Some s | _ \<Rightarrow> None)"

text \<open>
  \<^verbatim>\<open>sorted(counts.items())\<close>: the keys are distinct, so only keys are compared. Strings
  compare with strings and numbers with numbers; any other pair of keys raises.
\<close>

definition sorted_items :: "(json \<times> nat) list \<Rightarrow> exn + (json \<times> nat) list" where
  "sorted_items items =
     (if length items \<le> 1 then Inr items
      else if list_all (\<lambda>p. str_of (fst p) \<noteq> None) items then
        Inr (sort_by (\<lambda>y x. str_le (the (str_of (fst y))) (the (str_of (fst x)))) items)
      else if list_all (\<lambda>p. num_of (fst p) \<noteq> None) items then
        Inr (sort_by (\<lambda>y x. the (num_of (fst y)) \<le> the (num_of (fst x))) items)
      else raise TypeError ([squote] @ ''<'' @ [squote] @ '' not supported between instances''))"

section \<open>The tool functions\<close>

text \<open>
  Each tool function takes the bridge as \<open>call\<close>: what \<^verbatim>\<open>call_mcp_tool\<close> does with a tool
  name and a parameter mapping on the machine at hand, a returned value or a raised
  exception. The lists of lines are joined with \<^verbatim>\<open>"\\n"\<close>, which in the source is a
  backslash followed by the letter n, not a line feed.
\<close>

type_synonym bridge = "string \<Rightarrow> (string \<times> json) list \<Rightarrow> exn + json"

definition backslash_n :: string where
  "backslash_n = [backslash, CHR ''n'']"

text \<open>The symbols in the source's texts, as their UTF-8 bytes.\<close>

definition check_mark :: string where
  "check_mark = [CHR 0xE2, CHR 0x9C, CHR 0x85]"

definition warning_sign :: string where
  "warning_sign = [CHR 0xE2, CHR 0x9A, CHR 0xA0, CHR 0xEF, CHR 0xB8, CHR 0x8F]"

definition construction_sign :: string where
  "construction_sign = [CHR 0xF0, CHR 0x9F, CHR 0x9A, CHR 0xA7]"

definition fire_sign :: string where
  "fire_sign = [CHR 0xF0, CHR 0x9F, CHR 0x94, CHR 0xA5]"

text \<open>\<^verbatim>\<open>if project_name:\<close> holds for a string that is not empty.\<close>

definition given :: "string option \<Rightarrow> bool" where
  "given project_name = (case project_name of None \<Rightarrow> False | Some p \<Rightarrow> p \<noteq> [])"

definition with_project :: "string option \<Rightarrow> (string \<times> json) list \<Rightarrow> (string \<times> json) list" where
  "with_project project_name params =
     (if given project_name then params @ [(''project_name'', JStr (the project_name))] else params)"

subsection \<open>switch_project\<close>

definition switch_project_body :: "bridge \<Rightarrow> string \<Rightarrow> exn + string" where
  "switch_project_body call project_name =
     py_bind (call ''simpletask_switch_project'' [(''project_identifier'', JStr project_name)]) (\<lambda>result.
     py_bind (py_contains ''error'' result) (\<lambda>has_error.
     if has_error then
       py_bind (py_getitem result ''error'') (\<lambda>e. Inr (''Error switching to project: '' @ py_str e))
     else Inr (check_mark @ '' Switched to project: '' @ project_name)))"

definition switch_project :: "bridge \<Rightarrow> string \<Rightarrow> exn + string" where
  "switch_project call project_name =
     except_Exception ''Error switching to project: '' (switch_project_body call project_name)"

text \<open>
  Lines 396 to 399, 507 to 510 and 572 to 575: switch first when a project is given, and
  stop when the text that \<open>switch_project\<close> returned contains \<^verbatim>\<open>Error\<close>.
\<close>

definition after_switch :: "bridge \<Rightarrow> string option \<Rightarrow> (exn + string) \<Rightarrow> exn + string" where
  "after_switch call project_name rest =
     (if given project_name then
        py_bind (switch_project call (the project_name)) (\<lambda>switch_result.
        if is_substring ''Error'' switch_result
        then Inr (''Project switch failed: '' @ switch_result)
        else rest)
      else rest)"

subsection \<open>Reading the content text\<close>

text \<open>
  \<^verbatim>\<open>"content" in data and len(data["content"]) > 0\<close>, then
  \<^verbatim>\<open>data["content"][0].get("text", "")\<close> (lines 157 and 158, 247 and 248, 326 and 327);
  \<open>None\<close> is the \<^verbatim>\<open>else\<close> branch.
\<close>

definition content_text :: "json \<Rightarrow> exn + json option" where
  "content_text data =
     py_bind (py_contains ''content'' data) (\<lambda>has_content.
     if \<not> has_content then Inr None
     else
       py_bind (py_getitem data ''content'') (\<lambda>content.
       py_bind (py_len content) (\<lambda>n.
       if \<not> 0 < n then Inr None
       else
         py_bind (py_getitem data ''content'') (\<lambda>content.
         py_bind (py_first content) (\<lambda>first.
         py_bind (py_get first ''text'' (JStr [])) (\<lambda>text. Inr (Some text)))))))"

text \<open>
  \<^verbatim>\<open>json.loads(content)\<close> on a value: a TypeError when it is not a string, \<open>None\<close> for a
  JSONDecodeError, which is the only exception the inner \<^verbatim>\<open>try\<close> catches.
\<close>

definition loads_value :: "json \<Rightarrow> exn + json option" where
  "loads_value content =
     (case content of
        JStr s \<Rightarrow> Inr (json_loads s)
      | _ \<Rightarrow> raise TypeError (''the JSON object must be str, bytes or bytearray, not '' @ type_name content))"

subsection \<open>get_simple_task_overview\<close>

text \<open>Lines 191 and 200: \<^verbatim>\<open>(count / len(items)) * 100 if items else 0\<close>\<close>

definition percentage :: "json \<Rightarrow> nat \<Rightarrow> exn + rat" where
  "percentage items count =
     (if py_truthy items then
        py_bind (py_len items) (\<lambda>n.
        py_bind (py_truediv count n) (\<lambda>q. Inr (q * 100)))
      else Inr 0)"

definition count_tasks ::
  "json list \<Rightarrow> exn + ((json \<times> nat) list \<times> (json \<times> nat) list)" where
  "count_tasks tasks =
     py_foldM (\<lambda>(status_counts, priority_counts) task.
        py_bind (py_get task ''status'' (JStr ''unknown'')) (\<lambda>status.
        py_bind (py_get task ''priority'' (JStr ''unknown'')) (\<lambda>priority.
        py_bind (count_up status status_counts) (\<lambda>status_counts'.
        py_bind (count_up priority priority_counts) (\<lambda>priority_counts'.
        Inr (status_counts', priority_counts'))))))
       ([], []) tasks"

definition status_line :: "(rat \<Rightarrow> string) \<Rightarrow> json \<Rightarrow> json \<times> nat \<Rightarrow> exn + string" where
  "status_line fmt items p =
     py_bind (percentage items (snd p)) (\<lambda>pct.
     py_bind (str_method ''replace'' (fst p)) (\<lambda>status.
     Inr (''- **'' @ title (replace_underscores status) @ ''**: '' @ show_int (int (snd p))
            @ '' ('' @ fmt pct @ ''%)'')))"

definition priority_line :: "(rat \<Rightarrow> string) \<Rightarrow> json \<Rightarrow> json \<times> nat \<Rightarrow> exn + string" where
  "priority_line fmt items p =
     py_bind (percentage items (snd p)) (\<lambda>pct.
     py_bind (str_method ''title'' (fst p)) (\<lambda>priority.
     Inr (''- **'' @ title priority @ ''**: '' @ show_int (int (snd p))
            @ '' ('' @ fmt pct @ ''%)'')))"

definition lines_of :: "('a \<Rightarrow> exn + string) \<Rightarrow> 'a list \<Rightarrow> exn + string list" where
  "lines_of f xs = py_foldM (\<lambda>lines x. py_bind (f x) (\<lambda>l. Inr (lines @ [l]))) [] xs"

definition high_priority_line :: "json \<Rightarrow> exn + string" where
  "high_priority_line task =
     py_bind (py_get task ''status'' (JStr ''unknown'')) (\<lambda>status.
     py_bind (str_method ''replace'' status) (\<lambda>s.
     py_bind (py_get task ''title'' (JStr ''Untitled'')) (\<lambda>t.
     Inr (''- ['' @ title (replace_underscores s) @ ''] **'' @ py_str t @ ''**''))))"

text \<open>The part after the parse, lines 170 to 214.\<close>

definition overview ::
  "(rat \<Rightarrow> string) \<Rightarrow> string option \<Rightarrow> json \<Rightarrow> json \<Rightarrow> exn + string" where
  "overview fmt project_name items total_count =
     py_bind (py_iter items) (\<lambda>tasks.
     py_bind (count_tasks tasks) (\<lambda>(status_counts, priority_counts).
     py_bind (sorted_items status_counts) (\<lambda>statuses.
     py_bind (lines_of (status_line fmt items) statuses) (\<lambda>status_lines.
     py_bind (sorted_items priority_counts) (\<lambda>priorities.
     py_bind (lines_of (priority_line fmt items) priorities) (\<lambda>priority_lines.
     py_bind (py_foldM (\<lambda>found t.
                py_bind (py_get t ''priority'' JNull) (\<lambda>p.
                Inr (if p = JStr ''high'' then found @ [t] else found))) [] tasks) (\<lambda>high.
     py_bind (lines_of high_priority_line (take 5 high)) (\<lambda>high_lines.
     Inr (join backslash_n
       ([''# Simple Task Overview'',
         ''**Total Tasks**: '' @ py_str total_count,
         ''**Project**: '' @ (if given project_name then the project_name else ''Default Project''),
         ''**Data Source**: aitistra.com API'',
         [],
         ''## Status Distribution:'']
        @ status_lines
        @ [[], ''## Priority Distribution:'']
        @ priority_lines
        @ (if take 5 high \<noteq> [] then [[], ''## Recent High Priority Tasks:''] @ high_lines else [])))))))))))"

text \<open>What the function makes of the value that the bridge returned, lines 153 to 214.\<close>

definition overview_of ::
  "(rat \<Rightarrow> string) \<Rightarrow> string option \<Rightarrow> json \<Rightarrow> exn + string" where
  "overview_of fmt project_name summary_data =
     py_bind (py_contains ''error'' summary_data) (\<lambda>has_error.
     if has_error then
       py_bind (py_getitem summary_data ''error'') (\<lambda>e. Inr (''Error getting tasks: '' @ py_str e))
     else
       py_bind (content_text summary_data) (\<lambda>text.
       case text of
         None \<Rightarrow> Inr ''No task data received from MCP server''
       | Some content \<Rightarrow>
           py_bind (loads_value content) (\<lambda>loaded.
           case loaded of
             None \<Rightarrow>
               py_bind (py_slice_to 200 content) (\<lambda>c.
               Inr (''Error parsing task data: '' @ py_str c @ ''...''))
           | Some task_data \<Rightarrow>
               py_bind (py_get task_data ''items'' (JArr [])) (\<lambda>items.
               py_bind (py_len items) (\<lambda>n.
               py_bind (py_get task_data ''total_count'' (JNum (int n))) (\<lambda>total_count.
               overview fmt project_name items total_count))))))"

definition get_simple_task_overview ::
  "(rat \<Rightarrow> string) \<Rightarrow> bridge \<Rightarrow> string option \<Rightarrow> exn + string" where
  "get_simple_task_overview fmt call project_name =
     except_Exception ''Error analyzing tasks: ''
       (py_bind (call ''simpletask_get_tasks_summary''
                   (with_project project_name
                      [(''limit'', JNum 100), (''offset'', JNum 0), (''include_full_data'', JBool False)]))
          (overview_of fmt project_name))"

subsection \<open>get_blocked_tasks\<close>

text \<open>\<^verbatim>\<open>created_at[:10] if created_at else 'Unknown'\<close>, as the f-string prints it.\<close>

definition created_text :: "json \<Rightarrow> exn + string" where
  "created_text created_at =
     (if py_truthy created_at
      then py_bind (py_slice_to 10 created_at) (\<lambda>c. Inr (py_str c))
      else Inr ''Unknown'')"

text \<open>The body of the loop, lines 268 to 291, for the task numbered \<open>i\<close>.\<close>

definition blocked_task :: "nat \<Rightarrow> json \<Rightarrow> exn + string list" where
  "blocked_task i task =
     py_bind (py_get task ''title'' (JStr ''Untitled'')) (\<lambda>title_value.
     py_bind (py_get task ''priority'' (JStr ''unknown'')) (\<lambda>priority_value.
     py_bind (str_method ''title'' priority_value) (\<lambda>priority.
     py_bind (py_get task ''assigned_to'' JNull) (\<lambda>assigned_to.
     py_bind (py_get task ''depends_on'' (JArr [])) (\<lambda>dependencies.
     py_bind (py_get task ''created_at'' (JStr [])) (\<lambda>created_at.
     py_bind (created_text created_at) (\<lambda>created.
     py_bind (if py_truthy dependencies
              then py_bind (py_len dependencies) (\<lambda>n.
                   Inr [''- **Depends on**: '' @ show_int (int n) @ '' task(s)''])
              else Inr []) (\<lambda>depends.
     py_bind (py_get task ''description'' (JStr [])) (\<lambda>description_value.
     py_bind (str_method ''strip'' description_value) (\<lambda>unstripped.
     Inr ([''## '' @ show_int (int i) @ ''. '' @ py_str title_value,
           ''- **Priority**: '' @ title priority,
           ''- **Assigned to**: '' @ py_str (py_or assigned_to (JStr ''Unassigned'')),
           ''- **Created**: '' @ created]
          @ depends
          @ (if strip unstripped = [] then []
             else [''- **Description**: ''
                     @ (if 200 < length (strip unstripped)
                        then take 200 (strip unstripped) @ ''...''
                        else strip unstripped)])
          @ [[]])))))))))))"

text \<open>\<^verbatim>\<open>for i, task in enumerate(items, 1)\<close>, each task adding its lines.\<close>

definition enumerate_lines :: "(nat \<Rightarrow> json \<Rightarrow> exn + string list) \<Rightarrow> json list \<Rightarrow> exn + string list" where
  "enumerate_lines f tasks =
     py_foldM (\<lambda>lines p. py_bind (f (fst p) (snd p)) (\<lambda>ls. Inr (lines @ ls))) []
       (zip [1 ..< Suc (length tasks)] tasks)"

definition blocked_of :: "json \<Rightarrow> exn + string" where
  "blocked_of blocked_data =
     py_bind (py_contains ''error'' blocked_data) (\<lambda>has_error.
     if has_error then
       py_bind (py_getitem blocked_data ''error'') (\<lambda>e.
       Inr (''Error getting blocked tasks: '' @ py_str e))
     else
       py_bind (content_text blocked_data) (\<lambda>text.
       case text of
         None \<Rightarrow> Inr ''No blocked tasks data received from MCP server''
       | Some content \<Rightarrow>
           py_bind (loads_value content) (\<lambda>loaded.
           case loaded of
             None \<Rightarrow>
               py_bind (py_slice_to 200 content) (\<lambda>c.
               Inr (''Error parsing blocked tasks data: '' @ py_str c @ ''...''))
           | Some task_data \<Rightarrow>
               py_bind (py_get task_data ''items'' (JArr [])) (\<lambda>items.
               if \<not> py_truthy items then Inr (check_mark @ '' No blocked tasks found!'')
               else
                 py_bind (py_len items) (\<lambda>n.
                 py_bind (py_iter items) (\<lambda>tasks.
                 py_bind (enumerate_lines blocked_task tasks) (\<lambda>lines.
                 Inr (join backslash_n
                   ([''# Blocked Tasks ('' @ show_int (int n) @ '' found)'',
                     ''**Data Source**: aitistra.com API'',
                     []]
                    @ lines)))))))))"

definition get_blocked_tasks :: "bridge \<Rightarrow> string option \<Rightarrow> exn + string" where
  "get_blocked_tasks call project_name =
     except_Exception ''Error analyzing blocked tasks: ''
       (py_bind (call ''simpletask_get_tasks_by_status''
                   (with_project project_name
                      [(''status'', JStr ''blocked''), (''limit'', JNum 50), (''offset'', JNum 0),
                       (''include_full_data'', JBool True)]))
          blocked_of)"

subsection \<open>get_high_priority_tasks\<close>

text \<open>Lines 342 to 346: the tasks grouped by their status, in the order of arrival.\<close>

definition group_by_status :: "json list \<Rightarrow> exn + (json \<times> json list) list" where
  "group_by_status tasks =
     py_foldM (\<lambda>by_status task.
        py_bind (py_get task ''status'' (JStr ''unknown'')) (\<lambda>status.
        py_bind (hashable status) (\<lambda>_.
        Inr (key_store status
               ((case key_lookup status by_status of None \<Rightarrow> [] | Some ts \<Rightarrow> ts) @ [task])
               by_status))))
       [] tasks"

definition status_order :: "string list" where
  "status_order = [''blocked'', ''todo'', ''in_progress'', ''review'', ''completed'']"

text \<open>Lines 368 to 375, one task of a group.\<close>

definition high_priority_task :: "json \<Rightarrow> exn + string list" where
  "high_priority_task task =
     py_bind (py_get task ''title'' (JStr ''Untitled'')) (\<lambda>title_value.
     py_bind (py_get task ''assigned_to'' JNull) (\<lambda>assigned_to.
     py_bind (py_get task ''created_at'' (JStr [])) (\<lambda>created_at.
     py_bind (py_get task ''id'' (JStr ''unknown'')) (\<lambda>task_id.
     py_bind (if py_truthy created_at
              then py_bind (py_slice_to 10 created_at) (\<lambda>c. Inr [''  Created: '' @ py_str c])
              else Inr []) (\<lambda>created.
     Inr ((''- **'' @ py_str title_value @ ''** (ID: '' @ py_str task_id @ '', Assigned: ''
             @ py_str (py_or assigned_to (JStr ''Unassigned'')) @ '')'')
          # created))))))"

text \<open>Lines 357 to 377, one status of the fixed order.\<close>

definition status_section :: "(json \<times> json list) list \<Rightarrow> string \<Rightarrow> exn + string list" where
  "status_section by_status status =
     (case key_lookup (JStr status) by_status of
        None \<Rightarrow> Inr []
      | Some tasks \<Rightarrow>
          py_bind (py_foldM (\<lambda>lines task.
                     py_bind (high_priority_task task) (\<lambda>ls. Inr (lines @ ls))) [] tasks) (\<lambda>lines.
          Inr ([''## '' @ title (replace_underscores status) @ '' ('' @ show_int (int (length tasks)) @ '')'',
                []]
               @ lines @ [[]])))"

definition high_priority_of :: "json \<Rightarrow> exn + string" where
  "high_priority_of high_priority_data =
     py_bind (py_contains ''error'' high_priority_data) (\<lambda>has_error.
     if has_error then
       py_bind (py_getitem high_priority_data ''error'') (\<lambda>e.
       Inr (''Error getting high priority tasks: '' @ py_str e))
     else
       py_bind (content_text high_priority_data) (\<lambda>text.
       case text of
         None \<Rightarrow> Inr ''No high priority tasks data received from MCP server''
       | Some content \<Rightarrow>
           py_bind (loads_value content) (\<lambda>loaded.
           case loaded of
             None \<Rightarrow>
               py_bind (py_slice_to 200 content) (\<lambda>c.
               Inr (''Error parsing high priority tasks data: '' @ py_str c @ ''...''))
           | Some task_data \<Rightarrow>
               py_bind (py_get task_data ''items'' (JArr [])) (\<lambda>items.
               if \<not> py_truthy items then Inr ''No high priority tasks found.''
               else
                 py_bind (py_iter items) (\<lambda>tasks.
                 py_bind (group_by_status tasks) (\<lambda>by_status.
                 py_bind (py_len items) (\<lambda>n.
                 py_bind (py_foldM (\<lambda>lines status.
                            py_bind (status_section by_status status) (\<lambda>ls. Inr (lines @ ls)))
                            [] status_order) (\<lambda>lines.
                 Inr (join backslash_n
                   ([''# High Priority Tasks ('' @ show_int (int n) @ '' found)'',
                     ''**Data Source**: aitistra.com API'',
                     []]
                    @ lines))))))))))"

definition get_high_priority_tasks :: "bridge \<Rightarrow> string option \<Rightarrow> exn + string" where
  "get_high_priority_tasks call project_name =
     except_Exception ''Error analyzing high priority tasks: ''
       (py_bind (call ''simpletask_get_tasks_by_priority''
                   (with_project project_name
                      [(''priority'', JStr ''high''), (''limit'', JNum 25), (''offset'', JNum 0),
                       (''include_full_data'', JBool True)]))
          high_priority_of)"

subsection \<open>analyze_team_workload\<close>

record load =
  all_tasks :: nat
  high :: nat
  blocked :: nat
  in_progress :: nat
  completed :: nat
  todo :: nat

definition no_load :: load where
  "no_load = \<lparr>all_tasks = 0, high = 0, blocked = 0, in_progress = 0, completed = 0, todo = 0\<rparr>"

text \<open>
  \<^verbatim>\<open>if status in workload[assigned]: workload[assigned][status] += 1\<close>: the keys of the
  inner dict are \<^verbatim>\<open>total\<close>, \<^verbatim>\<open>high\<close> and the four statuses.
\<close>

definition count_status :: "json \<Rightarrow> load \<Rightarrow> load" where
  "count_status status l =
     (if status = JStr ''total'' then l\<lparr>all_tasks := all_tasks l + 1\<rparr>
      else if status = JStr ''high'' then l\<lparr>high := high l + 1\<rparr>
      else if status = JStr ''blocked'' then l\<lparr>blocked := blocked l + 1\<rparr>
      else if status = JStr ''in_progress'' then l\<lparr>in_progress := in_progress l + 1\<rparr>
      else if status = JStr ''completed'' then l\<lparr>completed := completed l + 1\<rparr>
      else if status = JStr ''todo'' then l\<lparr>todo := todo l + 1\<rparr>
      else l)"

text \<open>The loop of lines 423 to 448; the state is the workload and the unassigned count.\<close>

definition assign_task :: "(json \<times> load) list \<times> nat \<Rightarrow> json \<Rightarrow> exn + (json \<times> load) list \<times> nat" where
  "assign_task state task =
     py_bind (py_get task ''assigned_to'' JNull) (\<lambda>assigned.
     if \<not> py_truthy assigned then Inr (fst state, snd state + 1)
     else
       py_bind (hashable assigned) (\<lambda>_.
       py_bind (py_get task ''priority'' JNull) (\<lambda>priority.
       py_bind (py_get task ''status'' (JStr ''unknown'')) (\<lambda>status.
       py_bind (hashable status) (\<lambda>_.
       let l0 = (case key_lookup assigned (fst state) of None \<Rightarrow> no_load | Some l \<Rightarrow> l);
           l1 = l0\<lparr>all_tasks := all_tasks l0 + 1\<rparr>;
           l2 = (if priority = JStr ''high'' then l1\<lparr>high := high l1 + 1\<rparr> else l1)
       in Inr (key_store assigned (count_status status l2) (fst state), snd state))))))"

text \<open>Lines 464 to 487, one member of the team.\<close>

definition member_lines :: "json \<times> load \<Rightarrow> exn + string list" where
  "member_lines p =
     py_bind (py_contains ''@'' (fst p)) (\<lambda>is_email.
     py_bind (if is_email
              then py_bind (str_method ''split'' (fst p)) (\<lambda>m. Inr (title (before_at m)))
              else Inr (py_str (fst p))) (\<lambda>display_name.
     Inr ([''### '' @ display_name,
           ''- **Email**: '' @ py_str (fst p),
           ''- **Total Tasks**: '' @ show_int (int (all_tasks (snd p))),
           ''- **High Priority**: '' @ show_int (int (high (snd p))),
           ''- **Blocked**: '' @ show_int (int (blocked (snd p))),
           ''- **In Progress**: '' @ show_int (int (in_progress (snd p))),
           ''- **Completed**: '' @ show_int (int (completed (snd p))),
           ''- **Todo**: '' @ show_int (int (todo (snd p))),
           []]
          @ (if 10 < all_tasks (snd p) then
               [''  '' @ warning_sign @ ''  **High workload** - Consider redistributing tasks'']
             else if 2 < blocked (snd p) then
               [''  '' @ construction_sign @ '' **Multiple blockers** - Needs support unblocking tasks'']
             else if 3 < high (snd p) then
               [''  '' @ fire_sign @ '' **Many high-priority tasks** - May need prioritization help'']
             else [])
          @ [[]])))"

text \<open>The report for items that are not empty, lines 418 to 489.\<close>

definition workload_report :: "(rat \<Rightarrow> string) \<Rightarrow> json \<Rightarrow> exn + string" where
  "workload_report fmt items =
     py_bind (py_len items) (\<lambda>total_tasks.
     py_bind (py_iter items) (\<lambda>tasks.
     py_bind (py_foldM assign_task ([], 0) tasks) (\<lambda>(workload, unassigned_count).
     py_bind (py_truediv unassigned_count total_tasks) (\<lambda>q.
     py_bind (py_foldM (\<lambda>lines p. py_bind (member_lines p) (\<lambda>ls. Inr (lines @ ls))) []
                (sort_by (\<lambda>y x. all_tasks (snd x) \<le> all_tasks (snd y)) workload)) (\<lambda>lines.
     Inr (join backslash_n
       ([''# Team Workload Analysis'',
         ''**Total Active Tasks**: '' @ show_int (int total_tasks),
         ''**Unassigned Tasks**: '' @ show_int (int unassigned_count) @ '' ('' @ fmt (q * 100) @ ''%)'',
         ''**Data Source**: aitistra.com API'',
         [],
         ''## Individual Workloads:'',
         []]
        @ lines)))))))"

text \<open>What the function makes of the value that the bridge returned, lines 410 to 489.\<close>

definition workload_of :: "(rat \<Rightarrow> string) \<Rightarrow> json \<Rightarrow> exn + string" where
  "workload_of fmt tasks_data =
     py_bind (py_contains ''error'' tasks_data) (\<lambda>has_error.
     if has_error then
       py_bind (py_getitem tasks_data ''error'') (\<lambda>e. Inr (''Error getting tasks: '' @ py_str e))
     else
       py_bind (py_get tasks_data ''items'' (JArr [])) (\<lambda>items.
       if \<not> py_truthy items then Inr ''No tasks found for workload analysis.''
       else workload_report fmt items))"

definition analyze_team_workload ::
  "(rat \<Rightarrow> string) \<Rightarrow> bridge \<Rightarrow> string option \<Rightarrow> exn + string" where
  "analyze_team_workload fmt call project_name =
     except_Exception ''Error analyzing workload: ''
       (after_switch call project_name
          (py_bind (call ''simpletask_get_tasks''
                      [(''limit'', JNum 200), (''offset'', JNum 0), (''include_full_data'', JBool True)])
             (workload_of fmt)))"

subsection \<open>search_tasks\<close>

text \<open>Lines 540 to 553, the task numbered \<open>i\<close>.\<close>

definition found_task :: "nat \<Rightarrow> json \<Rightarrow> exn + string list" where
  "found_task i task =
     py_bind (py_get task ''title'' (JStr ''Untitled'')) (\<lambda>title_value.
     py_bind (py_get task ''status'' (JStr ''unknown'')) (\<lambda>status_value.
     py_bind (str_method ''title'' status_value) (\<lambda>status.
     py_bind (py_get task ''priority'' (JStr ''unknown'')) (\<lambda>priority_value.
     py_bind (str_method ''title'' priority_value) (\<lambda>priority.
     py_bind (py_get task ''assigned_to'' JNull) (\<lambda>assigned_to.
     py_bind (py_get task ''id'' (JStr ''unknown'')) (\<lambda>task_id.
     Inr [''## '' @ show_int (int i) @ ''. '' @ py_str title_value,
          ''- **Status**: '' @ title status,
          ''- **Priority**: '' @ title priority,
          ''- **Assigned**: '' @ py_str (py_or assigned_to (JStr ''Unassigned'')),
          ''- **ID**: '' @ py_str task_id,
          []])))))))"

definition search_of :: "string \<Rightarrow> json \<Rightarrow> exn + string" where
  "search_of query search_data =
     py_bind (py_contains ''error'' search_data) (\<lambda>has_error.
     if has_error then
       py_bind (py_getitem search_data ''error'') (\<lambda>e. Inr (''Error searching tasks: '' @ py_str e))
     else
       py_bind (py_get search_data ''items'' (JArr [])) (\<lambda>items.
       py_bind (py_get search_data ''total_count'' (JNum 0)) (\<lambda>total_count.
       if \<not> py_truthy items then Inr (''No tasks found matching '' @ [squote] @ query @ [squote])
       else
         py_bind (py_len items) (\<lambda>n.
         py_bind (py_iter items) (\<lambda>tasks.
         py_bind (enumerate_lines found_task tasks) (\<lambda>lines.
         Inr (join backslash_n
           ([''# Search Results for '' @ [squote] @ query @ [squote],
             ''**Found**: '' @ py_str total_count @ '' tasks'',
             ''**Showing**: '' @ show_int (int n) @ '' results'',
             ''**Data Source**: aitistra.com API'',
             []]
            @ lines))))))))"

definition search_tasks :: "bridge \<Rightarrow> string \<Rightarrow> string option \<Rightarrow> exn + string" where
  "search_tasks call query project_name =
     except_Exception ''Error searching tasks: ''
       (after_switch call project_name
          (py_bind (call ''simpletask_search_tasks''
                      [(''query'', JStr query), (''limit'', JNum 25), (''offset'', JNum 0),
                       (''include_full_data'', JBool False)])
             (search_of query)))"

subsection \<open>get_project_info\<close>

text \<open>Lines 600 to 610, one project of the list.\<close>

definition project_lines :: "string option \<Rightarrow> json \<Rightarrow> exn + string list" where
  "project_lines project_name project =
     py_bind (py_get project ''name'' (JStr ''Unknown'')) (\<lambda>name.
     py_bind (py_get project ''projectName'' (JStr ''unknown'')) (\<lambda>project_name_key.
     py_bind (py_get project ''description'' (JStr ''No description'')) (\<lambda>description.
     Inr [''### '' @ py_str name @ '' ''
            @ (if given project_name \<and> JStr (the project_name) = project_name_key
               then ''**[CURRENT]**'' else []),
          ''- **Project Key**: '' @ py_str project_name_key,
          ''- **Description**: '' @ py_str description,
          []])))"

definition project_info_of :: "bridge \<Rightarrow> string option \<Rightarrow> json \<Rightarrow> exn + string" where
  "project_info_of call project_name project_data =
     py_bind (py_contains ''error'' project_data) (\<lambda>has_error.
     if has_error then
       py_bind (py_getitem project_data ''error'') (\<lambda>e.
       Inr (''Error getting project info: '' @ py_str e))
     else
       py_bind (call ''simpletask_list_projects'' []) (\<lambda>projects_data.
       py_bind (py_contains ''error'' projects_data) (\<lambda>list_failed.
       py_bind (if list_failed then Inr []
                else
                  py_bind (py_len projects_data) (\<lambda>n.
                  py_bind (py_iter projects_data) (\<lambda>projects.
                  py_bind (py_foldM (\<lambda>lines project.
                             py_bind (project_lines project_name project) (\<lambda>ls. Inr (lines @ ls)))
                             [] projects) (\<lambda>lines.
                  Inr ([''## Available Projects ('' @ show_int (int n) @ '' total):'', []] @ lines))))) (\<lambda>listed.
       Inr (join backslash_n
         ([''# Project Information'', ''**Data Source**: aitistra.com API'', []] @ listed))))))"

definition get_project_info :: "bridge \<Rightarrow> string option \<Rightarrow> exn + string" where
  "get_project_info call project_name =
     except_Exception ''Error getting project info: ''
       (after_switch call project_name
          (py_bind (call ''simpletask_get_project_info'' []) (project_info_of call project_name)))"

subsection \<open>Bridges and answers used as examples\<close>

text \<open>The bridge of one machine: \<^verbatim>\<open>call_mcp_tool\<close> there, in a given world.\<close>

definition bridge_on :: "os_env \<Rightarrow> world \<Rightarrow> bridge" where
  "bridge_on os w = (\<lambda>tool_name params. fst (call_mcp_tool os tool_name params w))"

text \<open>A bridge whose every call returns an error mapping.\<close>

definition failing_bridge :: bridge where
  "failing_bridge = (\<lambda>tool_name params. Inr (JObj [(''error'', JStr ''down'')]))"

text \<open>
  The answer of a server whose content text decodes to no items and a total count of 0:
  the quotes inside the text are escaped.
\<close>

definition escaped :: "string \<Rightarrow> string" where
  "escaped s = backslash # dquote # s @ [backslash, dquote]"

definition overview_answer :: string where
  \<open>overview_answer =
     ''{"jsonrpc":"2.0","id":1,"result":{"content":[{"text":"{'' @ escaped ''items'' @ '':[],''
       @ escaped ''total_count'' @ '':0}"}]}}''\<close>

definition overview_server :: server_run where
  "overview_server = Server_closes 1 (Some 0) (overview_answer @ [newline]) []"

text \<open>The exception, if any, is not a ZeroDivisionError.\<close>

definition no_zero_division :: "exn + 'a \<Rightarrow> bool" where
  "no_zero_division m = (case m of Inl e \<Rightarrow> class_of e \<noteq> ZeroDivisionError | Inr x \<Rightarrow> True)"

text \<open>The text that the overview of no tasks comes to.\<close>

definition empty_overview :: string where
  "empty_overview =
     ''# Simple Task Overview'' @ backslash_n @ ''**Total Tasks**: 0'' @ backslash_n
       @ ''**Project**: Default Project'' @ backslash_n @ ''**Data Source**: aitistra.com API''
       @ backslash_n @ backslash_n @ ''## Status Distribution:'' @ backslash_n @ backslash_n
       @ ''## Priority Distribution:''"

section \<open>What the staged script writes to the server\<close>

text \<open>
  The f-string of lines 29 to 77 puts three texts into the JavaScript source: the server
  path and the tool name, each between single quotes, and \<^verbatim>\<open>json.dumps(params)\<close> as an
  expression. What the script then sends depends on how node reads them. The script's
  text in four fixed pieces, around the three inserted texts:
\<close>

definition script_head :: string where
  "script_head =
     newline # unlines
       [''const { spawn } = require('child_process');'',
        []]
     @ ''const serverProcess = spawn('node', ['' @ [squote]"

definition script_mid1 :: string where
  "script_mid1 =
     unlines
       [''], {'',
        ''    stdio: ['pipe', 'pipe', 'pipe']'',
        ''});'',
        [],
        ''const request = {'',
        ''    jsonrpc: '2.0','',
        ''    id: 1,'',
        ''    method: 'tools/call','',
        ''    params: {'']
     @ ''        name: '' @ [squote]"

definition script_mid2 :: string where
  "script_mid2 = unlines ['',''] @ ''        arguments: ''"

definition script_tail :: string where
  "script_tail =
     newline # unlines
       [''    }'',
        ''};'',
        [],
        ''serverProcess.stdin.write(JSON.stringify(request) + '' @ [squote, backslash] @ ''n');'',
        ''serverProcess.stdin.end();'',
        [],
        ''let output = '' @ [squote, squote] @ '';'',
        ''serverProcess.stdout.on('data', (data) => {'',
        ''    output += data.toString();'',
        ''});'',
        [],
        ''serverProcess.stderr.on('data', (data) => {'',
        ''    console.error('MCP Error:', data.toString());'',
        ''});'',
        [],
        ''serverProcess.on('close', (code) => {'',
        ''    try {'',
        ''        const lines = output.split('' @ [squote, backslash] @ ''n').filter(line => line.trim());'',
        ''        for (const line of lines) {'',
        ''            try {'',
        ''                const parsed = JSON.parse(line);'',
        ''                if (parsed.result) {'',
        ''                    console.log(JSON.stringify(parsed.result, null, 2));'',
        ''                    return;'',
        ''                }'',
        ''            } catch (e) {'',
        ''                // Not JSON, continue'',
        ''            }'',
        ''        }'',
        ''        console.log(JSON.stringify({ error: 'No valid response found', raw_output: output }, null, 2));'',
        ''    } catch (error) {'',
        ''        console.log(JSON.stringify({ error: error.message, raw_output: output }, null, 2));'',
        ''    }'',
        ''});'']"

subsection \<open>A single-quoted string literal of JavaScript\<close>

text \<open>
  The text after the opening quote: the value of the literal and the source after its
  closing quote. \<open>None\<close> is a literal that node refuses (a line end inside it, a broken
  escape) or that this model leaves out (octal escapes, escapes of characters above
  \<^verbatim>\<open>\u00ff\<close>).
\<close>

definition hex2 :: "char \<Rightarrow> char \<Rightarrow> nat option" where
  "hex2 a b =
     (case (hex_val a, hex_val b) of (Some x, Some y) \<Rightarrow> Some (x * 16 + y) | _ \<Rightarrow> None)"

fun js_string_body :: "string \<Rightarrow> (string \<times> string) option" where
  "js_string_body [] = None"
| "js_string_body (c # cs) =
     (if c = squote then Some ([], cs)
      else if c = CHR 0x0A \<or> c = CHR 0x0D then None
      else if c = backslash then
        (case cs of
           [] \<Rightarrow> None
         | e # cs' \<Rightarrow>
             if e = CHR ''n'' then cons_fst (CHR 0x0A) (js_string_body cs')
             else if e = CHR ''t'' then cons_fst (CHR 0x09) (js_string_body cs')
             else if e = CHR ''r'' then cons_fst (CHR 0x0D) (js_string_body cs')
             else if e = CHR ''b'' then cons_fst (CHR 0x08) (js_string_body cs')
             else if e = CHR ''f'' then cons_fst (CHR 0x0C) (js_string_body cs')
             else if e = CHR ''v'' then cons_fst (CHR 0x0B) (js_string_body cs')
             else if e = CHR ''0'' then
               (case cs' of
                  [] \<Rightarrow> None
                | d # _ \<Rightarrow> if is_digit d then None else cons_fst (CHR 0x00) (js_string_body cs'))
             else if is_digit e then None
             else if e = CHR ''x'' then
               (case cs' of
                  h1 # h2 # rest \<Rightarrow>
                    (case hex2 h1 h2 of
                       None \<Rightarrow> None
                     | Some n \<Rightarrow> cons_fst (char_of n) (js_string_body rest))
                | _ \<Rightarrow> None)
             else if e = CHR ''u'' then
               (case cs' of
                  h1 # h2 # h3 # h4 # rest \<Rightarrow>
                    (case hex4 h1 h2 h3 h4 of
                       None \<Rightarrow> None
                     | Some n \<Rightarrow> if n < 256 then cons_fst (char_of n) (js_string_body rest) else None)
                | _ \<Rightarrow> None)
             else if e = CHR 0x0A then js_string_body cs'
             else if e = CHR 0x0D then
               (case cs' of
                  [] \<Rightarrow> None
                | d # rest \<Rightarrow> if d = CHR 0x0A then js_string_body rest else js_string_body cs')
             else cons_fst e (js_string_body cs'))
      else cons_fst c (js_string_body cs))"

subsection \<open>The value of the arguments expression\<close>

text \<open>
  \<^verbatim>\<open>json.dumps\<close> writes JSON, and JSON is an expression of JavaScript, but an object
  literal is not the object that \<^verbatim>\<open>JSON.parse\<close> would give: a member named
  \<^verbatim>\<open>__proto__\<close> sets the prototype and is no property of the object; the properties whose
  names are array indices come first, in the order of the indices; and a number is a
  double, exact up to \<open>2 ^ 53\<close> (beyond it this model gives \<open>None\<close>).
\<close>

definition array_index :: "string \<Rightarrow> nat option" where
  "array_index s =
     (case parse_nat s of
        Some (n, []) \<Rightarrow> if n < 4294967295 then Some n else None
      | _ \<Rightarrow> None)"

definition own_properties :: "(string \<times> json) list \<Rightarrow> (string \<times> json) list" where
  "own_properties kvs =
     (let d = as_dict (filter (\<lambda>kv. fst kv \<noteq> ''__proto__'') kvs)
      in sort_by (\<lambda>y x. the (array_index (fst y)) \<le> the (array_index (fst x)))
           (filter (\<lambda>kv. array_index (fst kv) \<noteq> None) d)
         @ filter (\<lambda>kv. array_index (fst kv) = None) d)"

definition all_some :: "'a option list \<Rightarrow> 'a list option" where
  "all_some xs = (if list_all (\<lambda>x. x \<noteq> None) xs then Some (map the xs) else None)"

fun js_value :: "json \<Rightarrow> json option" where
  "js_value JNull = Some JNull"
| "js_value (JBool b) = Some (JBool b)"
| "js_value (JNum n) = (if \<bar>n\<bar> \<le> 9007199254740992 then Some (JNum n) else None)"
| "js_value (JStr s) = Some (JStr s)"
| "js_value (JArr xs) = map_option JArr (all_some (map js_value xs))"
| "js_value (JObj kvs) =
     map_option (\<lambda>vs. JObj (own_properties (zip (map fst kvs) vs)))
       (all_some (map (\<lambda>kv. js_value (snd kv)) kvs))"

definition js_eval :: "string \<Rightarrow> json option" where
  "js_eval text = (case json_parse text of None \<Rightarrow> None | Some v \<Rightarrow> js_value v)"

subsection \<open>The script's run up to the request\<close>

definition strip_prefix :: "string \<Rightarrow> string \<Rightarrow> string option" where
  "strip_prefix p s = (if take (length p) s = p then Some (drop (length p) s) else None)"

text \<open>
  A script text read as the template: the file given to the server's node, the tool
  name and the arguments, as node evaluates the three inserted texts. \<open>None\<close> is a text
  that is not the template with three such values in it.
\<close>

definition script_values :: "string \<Rightarrow> (string \<times> string \<times> json) option" where
  "script_values text =
     (case strip_prefix script_head text of
        None \<Rightarrow> None
      | Some r1 \<Rightarrow>
          (case js_string_body r1 of
             None \<Rightarrow> None
           | Some (server_js, r2) \<Rightarrow>
               (case strip_prefix script_mid1 r2 of
                  None \<Rightarrow> None
                | Some r3 \<Rightarrow>
                    (case js_string_body r3 of
                       None \<Rightarrow> None
                     | Some (name, r4) \<Rightarrow>
                         (case strip_prefix script_mid2 r4 of
                            None \<Rightarrow> None
                          | Some r5 \<Rightarrow>
                              if dropWhile (\<lambda>c. c \<noteq> newline) r5 \<noteq> script_tail then None
                              else
                                (case js_eval (takeWhile (\<lambda>c. c \<noteq> newline) r5) of
                                   None \<Rightarrow> None
                                 | Some arguments \<Rightarrow> Some (server_js, name, arguments)))))))"

text \<open>Lines 36 to 44: the request object.\<close>

definition request :: "string \<Rightarrow> json \<Rightarrow> json" where
  "request name arguments =
     JObj [(''jsonrpc'', JStr ''2.0''), (''id'', JNum 1), (''method'', JStr ''tools/call''),
           (''params'', JObj [(''name'', JStr name), (''arguments'', arguments)])]"

datatype stdin_action = Write string | End

text \<open>
  Lines 46 and 47: \<^verbatim>\<open>serverProcess.stdin.write(JSON.stringify(request) + '\n')\<close>, then
  \<^verbatim>\<open>serverProcess.stdin.end()\<close>.
\<close>

definition stdin_of_script :: "string \<Rightarrow> stdin_action list option" where
  "stdin_of_script text =
     (case script_values text of
        None \<Rightarrow> None
      | Some (server_js, name, arguments) \<Rightarrow>
          Some [Write (JSON_stringify (request name arguments) @ [newline]), End])"

subsection \<open>Texts and values that pass unchanged\<close>

text \<open>A text that a single-quoted literal holds as it is.\<close>

definition clean :: "string \<Rightarrow> bool" where
  "clean s = list_all (\<lambda>c. c \<noteq> squote \<and> c \<noteq> backslash \<and> c \<noteq> CHR 0x0A \<and> c \<noteq> CHR 0x0D) s"

text \<open>
  A value that the object literal holds as it is: integers up to \<open>2 ^ 53\<close> in size, and
  in every object distinct keys, none of them \<^verbatim>\<open>__proto__\<close> or an array index.
\<close>

fun plain :: "json \<Rightarrow> bool" where
  "plain JNull = True"
| "plain (JBool b) = True"
| "plain (JNum n) = (\<bar>n\<bar> \<le> 9007199254740992)"
| "plain (JStr s) = True"
| "plain (JArr xs) = list_all plain xs"
| "plain (JObj kvs) =
     (distinct (map fst kvs)
      \<and> list_all (\<lambda>kv. fst kv \<noteq> ''__proto__'' \<and> array_index (fst kv) = None \<and> plain (snd kv)) kvs)"

subsection \<open>Examples of requests\<close>

text \<open>Line 24: the directory of the server, from the environment or the default.\<close>

definition staged_path :: "os_env \<Rightarrow> string" where
  "staged_path os = (case MCP_SERVER_PATH os of Some p \<Rightarrow> p | None \<Rightarrow> default_server_path)"

definition example_arguments :: "(string \<times> json) list" where
  "example_arguments = [(''a'', JNum 1), (''b'', JArr [JBool True, JNull])]"

definition proto_arguments :: "(string \<times> json) list" where
  "proto_arguments = [(''__proto__'', JObj [(''admin'', JBool True)])]"

section \<open>Rendering and parsing\<close>

text \<open>
  \<open>json_parse\<close> reads back every value from each of the three renderings. The proof
  goes from digits and escapes to values, by induction on the value with the fuel, the
  leading white space and the following text generalised.
\<close>

lemma below_10_cases:
  assumes "d < (10::nat)"
  shows "d = 0 \<or> d = 1 \<or> d = 2 \<or> d = 3 \<or> d = 4 \<or> d = 5 \<or> d = 6 \<or> d = 7 \<or> d = 8 \<or> d = 9"
  using assms by arith

lemma below_16_cases:
  assumes "d < (16::nat)"
  shows "d = 0 \<or> d = 1 \<or> d = 2 \<or> d = 3 \<or> d = 4 \<or> d = 5 \<or> d = 6 \<or> d = 7 \<or> d = 8 \<or> d = 9
       \<or> d = 10 \<or> d = 11 \<or> d = 12 \<or> d = 13 \<or> d = 14 \<or> d = 15"
  using assms by arith

lemma digit_char_is_digit: "d < 10 \<Longrightarrow> is_digit (digit_char d)"
  using below_10_cases [of d] by (auto simp: digit_char_def is_digit_def)

lemma digit_val_digit_char: "d < 10 \<Longrightarrow> digit_val (digit_char d) = d"
  using below_10_cases [of d] by (auto simp: digit_char_def digit_val_def)

lemma digit_char_zero: "d < 10 \<Longrightarrow> digit_char d = CHR ''0'' \<longleftrightarrow> d = 0"
  using below_10_cases [of d] by (auto simp: digit_char_def)

lemma hex_val_hex_char: "d < 16 \<Longrightarrow> hex_val (hex_char d) = Some d"
  using below_16_cases [of d] by (auto simp: hex_char_def hex_val_def)

lemma digits_not_empty: "digits n \<noteq> []"
  by (subst digits.simps) simp

lemma digits_all_digit: "c \<in> set (digits n) \<Longrightarrow> is_digit c"
proof (induction n arbitrary: c rule: digits.induct)
  case (1 n)
  show ?case
  proof (cases "n < 10")
    case True
    with "1.prems" show ?thesis
      by (subst (asm) digits.simps) (simp add: digit_char_is_digit)
  next
    case False
    with "1.prems" "1.IH" show ?thesis
      by (subst (asm) digits.simps) (auto simp: digit_char_is_digit)
  qed
qed

lemma digits_value: "foldl (\<lambda>a c. 10 * a + digit_val c) 0 (digits n) = n"
proof (induction n rule: digits.induct)
  case (1 n)
  show ?case
  proof (cases "n < 10")
    case True
    then show ?thesis
      by (subst digits.simps) (simp add: digit_val_digit_char)
  next
    case False
    with "1.IH" show ?thesis
      by (subst digits.simps) (simp add: digit_val_digit_char)
  qed
qed

lemma digits_hd: "0 < n \<Longrightarrow> hd (digits n) \<noteq> CHR ''0''"
proof (induction n rule: digits.induct)
  case (1 n)
  show ?case
  proof (cases "n < 10")
    case True
    with "1.prems" show ?thesis
      by (subst digits.simps) (simp add: digit_char_zero)
  next
    case False
    then have "0 < n div 10" by simp
    with False "1.IH" show ?thesis
      by (subst digits.simps) (simp add: digits_not_empty)
  qed
qed

lemma digits_no_leading_zero: "\<not> (hd (digits n) = CHR ''0'' \<and> tl (digits n) \<noteq> [])"
proof (cases "n < 10")
  case True
  then show ?thesis by (subst (2) digits.simps) simp
next
  case False
  then have "0 < n" by simp
  then show ?thesis using digits_hd by blast
qed

lemma takeWhile_digits: "delimited rest \<Longrightarrow> takeWhile is_digit (digits n @ rest) = digits n"
  by (cases rest) (auto simp: delimited_def takeWhile_append digits_all_digit intro!: takeWhile_eq_all_conv[THEN iffD2])

lemma dropWhile_digits: "delimited rest \<Longrightarrow> dropWhile is_digit (digits n @ rest) = rest"
  by (cases rest) (auto simp: delimited_def dropWhile_append digits_all_digit)

lemma parse_nat_digits:
  assumes "delimited rest"
  shows "parse_nat (digits n @ rest) = Some (n, rest)"
proof -
  have tw: "takeWhile is_digit (digits n @ rest) = digits n"
    using takeWhile_digits [OF assms] .
  have dw: "dropWhile is_digit (digits n @ rest) = rest"
    using dropWhile_digits [OF assms] .
  have r: "\<not> (rest \<noteq> [] \<and> hd rest \<in> {CHR ''.'', CHR ''e'', CHR ''E''})"
    using assms by (cases rest) (auto simp: delimited_def)
  show ?thesis
    unfolding parse_nat_def Let_def tw dw
    using digits_no_leading_zero [of n] r
    by (simp add: digits_not_empty digits_value)
qed

lemma parse_number_show_int:
  "delimited rest \<Longrightarrow> parse_number (show_int i @ rest) = Some (JNum i, rest)"
proof (cases "i < 0")
  case True
  assume "delimited rest"
  with True show ?thesis
    by (simp add: parse_number_def show_int_def parse_nat_digits)
next
  case False
  assume d: "delimited rest"
  obtain c cs where cs: "digits (nat i) = c # cs"
    using digits_not_empty [of "nat i"] by (cases "digits (nat i)") auto
  then have "is_digit c" using digits_all_digit [of c "nat i"] by simp
  then have "c \<noteq> CHR ''-''" by (auto simp: is_digit_def)
  moreover have "parse_nat (c # cs @ rest) = Some (nat i, rest)"
    using parse_nat_digits [OF d, of "nat i"] cs by simp
  ultimately show ?thesis using False cs
    by (simp add: parse_number_def show_int_def)
qed



lemma char_of_of_char_nat: "char_of (of_char c :: nat) = c"
  by simp

lemma of_char_div_16: "(of_char c :: nat) div 16 < 16"
proof -
  have "(of_char c :: nat) < 256" by simp
  then show ?thesis by arith
qed

lemma hex4_u_escape:
  "hex4 (CHR ''0'') (CHR ''0'') (hex_char (of_char c div 16)) (hex_char (of_char c mod 16))
     = Some (of_char c)"
  by (simp add: hex4_def hex_val_hex_char of_char_div_16) (simp add: hex_val_def)

lemma parse_string_u_escape:
  "parse_string (u_escape c @ t) = cons_fst c (parse_string t)"
proof -
  have "(of_char c :: nat) < 256" by simp
  then show ?thesis
    by (simp add: u_escape_def hex4_u_escape backslash_def dquote_def)
qed

lemma parse_string_short_escape:
  "short_escape c = Some e \<Longrightarrow> parse_string (e @ t) = cons_fst c (parse_string t)"
  by (auto simp: short_escape_def unescape_def backslash_def dquote_def split: if_splits)

lemma parse_string_plain:
  "short_escape c = None \<Longrightarrow> \<not> (of_char c :: nat) < 0x20
     \<Longrightarrow> parse_string (c # t) = cons_fst c (parse_string t)"
  by (auto simp: short_escape_def split: if_splits)

lemma js_escape_ok: "escape_ok js_escape"
  unfolding escape_ok_def
proof (intro allI)
  fix c t
  show "parse_string (js_escape c @ t) = cons_fst c (parse_string t)"
  proof (cases "short_escape c")
    case None
    then show ?thesis
      by (cases "(of_char c :: nat) < 0x20")
         (simp_all add: js_escape_def parse_string_u_escape parse_string_plain
            del: parse_string.simps)
  next
    case (Some e)
    then show ?thesis
      by (simp add: js_escape_def parse_string_short_escape del: parse_string.simps)
  qed
qed

lemma py_escape_ok: "escape_ok py_escape"
  unfolding escape_ok_def
proof (intro allI)
  fix c t
  show "parse_string (py_escape c @ t) = cons_fst c (parse_string t)"
  proof (cases "short_escape c")
    case None
    then show ?thesis
      by (cases "(of_char c :: nat) < 0x20 \<or> (0x7E :: nat) < of_char c")
         (simp_all add: py_escape_def parse_string_u_escape parse_string_plain
            del: parse_string.simps)
  next
    case (Some e)
    then show ?thesis
      by (simp add: py_escape_def parse_string_short_escape del: parse_string.simps)
  qed
qed

lemma parse_string_escaped:
  assumes "escape_ok esc"
  shows "parse_string (concat (map esc s) @ dquote # rest) = Some (s, rest)"
proof (induction s)
  case Nil
  show ?case by simp
next
  case (Cons c s)
  have "parse_string (esc c @ (concat (map esc s) @ dquote # rest))
          = cons_fst c (parse_string (concat (map esc s) @ dquote # rest))"
    using assms unfolding escape_ok_def by blast
  with Cons show ?case by (simp add: cons_fst_def)
qed


lemma white_Nil [simp]: "white []"
  by (simp add: white_def)

lemma skip_ws_white: "white w \<Longrightarrow> skip_ws (w @ s) = skip_ws s"
  by (simp add: skip_ws_def white_def dropWhile_append2)

lemma skip_ws_stop: "\<not> is_ws c \<Longrightarrow> skip_ws (c # s) = c # s"
  by (simp add: skip_ws_def)

lemma skip_ws_white_stop: "white w \<Longrightarrow> \<not> is_ws c \<Longrightarrow> skip_ws (w @ c # s) = c # s"
  by (simp add: skip_ws_white skip_ws_stop)

lemma skip_ws_only_white: "white w \<Longrightarrow> skip_ws w = []"
  by (simp add: skip_ws_def white_def)

lemma delimited_white:
  assumes "white w" and "delimited s"
  shows "delimited (w @ s)"
proof (cases w)
  case Nil
  with assms show ?thesis by simp
next
  case (Cons c cs)
  with assms have "is_ws c" by (simp add: white_def)
  then show ?thesis using Cons
    by (auto simp: delimited_def is_ws_def is_digit_def)
qed

lemma delimited_punct [simp]:
  "delimited (CHR '','' # s)" "delimited (CHR '']'' # s)" "delimited (CHR ''}'' # s)" "delimited []"
  by (simp_all add: delimited_def is_digit_def)

lemma not_ws_punct [simp]:
  "\<not> is_ws (CHR '','')" "\<not> is_ws (CHR '']'')" "\<not> is_ws (CHR ''}'')" "\<not> is_ws (CHR '':'')"
  "\<not> is_ws (CHR ''['')" "\<not> is_ws (CHR ''{'')" "\<not> is_ws dquote"
  "\<not> is_ws (CHR ''t'')" "\<not> is_ws (CHR ''f'')" "\<not> is_ws (CHR ''n'')"
  "\<not> is_ws (CHR 0x22)"
  by (simp_all add: is_ws_def dquote_def)

lemma show_int_head: "\<exists>c cs. show_int i = c # cs \<and> (c = CHR ''-'' \<or> is_digit c)"
proof -
  obtain c cs where "digits (nat \<bar>i\<bar>) = c # cs"
    using digits_not_empty [of "nat \<bar>i\<bar>"] by (cases "digits (nat \<bar>i\<bar>)") auto
  moreover from this have "is_digit c"
    using digits_all_digit [of c "nat \<bar>i\<bar>"] by simp
  ultimately show ?thesis
    by (cases "i < 0") (auto simp: show_int_def abs_if)
qed

lemma render_head:
  "\<exists>c cs. render L d v = c # cs \<and> \<not> is_ws c \<and> c \<noteq> CHR '']'' \<and> c \<noteq> CHR ''}''"
proof (cases v)
  case (JNum i)
  obtain c cs where "show_int i = c # cs" "c = CHR ''-'' \<or> is_digit c"
    using show_int_head by blast
  with JNum show ?thesis by (auto simp: is_ws_def is_digit_def)
qed (auto simp: is_ws_def quoted_def dquote_def)

lemma join_map_Cons:
  "\<exists>tail. join sep (map f (x # xs)) = f x @ tail \<and> (xs = [] \<longrightarrow> tail = [])
     \<and> (xs \<noteq> [] \<longrightarrow> tail = sep @ join sep (map f xs))"
  by (cases xs) auto

lemma parse_elements_join:
  assumes IH: "\<And>x n w rest. x \<in> set xs \<Longrightarrow> size x < n \<Longrightarrow> white w \<Longrightarrow> delimited rest
                 \<Longrightarrow> parse_value n (w @ f x @ rest) = Some (x, rest)"
    and "xs \<noteq> []" and "size_list size xs < n" and "white w" and "white ws" and "white w2"
  shows "parse_elements n (w @ join (CHR '','' # ws) (map f xs) @ w2 @ CHR '']'' # rest)
           = Some (xs, rest)"
  using assms
proof (induction xs arbitrary: n w)
  case Nil
  then show ?case by simp
next
  case (Cons x xs)
  from Cons.prems(3) obtain n' where n: "n = Suc n'" by (cases n) auto
  with Cons.prems(3) have sx: "size x < n'" and sxs: "xs \<noteq> [] \<Longrightarrow> size_list size xs < n'"
    by auto
  have pv: "\<And>rest'. delimited rest' \<Longrightarrow> parse_value n' (w @ f x @ rest') = Some (x, rest')"
    using Cons.prems(1) [of x n' w] sx Cons.prems(4) by simp
  show ?case
  proof (cases xs)
    case Nil
    have "parse_value n' (w @ f x @ (w2 @ CHR '']'' # rest)) = Some (x, w2 @ CHR '']'' # rest)"
      by (rule pv) (simp add: delimited_white Cons.prems(6))
    with Nil n show ?thesis
      by (simp add: skip_ws_white_stop Cons.prems(6))
  next
    case (Cons y ys)
    let ?tail = "ws @ join (CHR '','' # ws) (map f xs) @ w2 @ CHR '']'' # rest"
    have "parse_value n' (w @ f x @ (CHR '','' # ?tail)) = Some (x, CHR '','' # ?tail)"
      by (rule pv) simp
    moreover have "parse_elements n' ?tail = Some (xs, rest)"
      using Cons.IH [of n' ws] Cons.prems(1) sxs Cons Cons.prems(5,6) by simp
    ultimately show ?thesis using Cons n
      by (simp add: skip_ws_stop cons_fst_def)
  qed
qed


lemma parse_members_join:
  assumes esc: "escape_ok esc"
    and IH: "\<And>k v n w rest. (k, v) \<in> set kvs \<Longrightarrow> size v < n \<Longrightarrow> white w \<Longrightarrow> delimited rest
                 \<Longrightarrow> parse_value n (w @ f v @ rest) = Some (v, rest)"
    and "kvs \<noteq> []" and "size_list (size_prod (\<lambda>x. 0) size) kvs < n"
    and "white w" and "white ws" and "white w2" and "white wc"
  shows "parse_members n
           (w @ join (CHR '','' # ws)
                  (map (\<lambda>kv. quoted esc (fst kv) @ CHR '':'' # wc @ f (snd kv)) kvs)
              @ w2 @ CHR ''}'' # rest)
           = Some (kvs, rest)"
  using assms(2-)
proof (induction kvs arbitrary: n w)
  case Nil
  then show ?case by simp
next
  case (Cons kv kvs)
  obtain k v where kv: "kv = (k, v)" by (cases kv)
  from Cons.prems(3) obtain n' where n: "n = Suc n'" by (cases n) auto
  with Cons.prems(3) kv have sv: "size v < n'"
    and skvs: "kvs \<noteq> [] \<Longrightarrow> size_list (size_prod (\<lambda>x. 0) size) kvs < n'"
    by auto
  have key: "\<And>t. parse_string (concat (map esc k) @ dquote # t) = Some (k, t)"
    using parse_string_escaped [OF esc] .
  have pv: "\<And>rest'. delimited rest' \<Longrightarrow> parse_value n' (wc @ f v @ rest') = Some (v, rest')"
    using Cons.prems(1) [of k v n' wc] sv Cons.prems(7) kv by simp
  show ?case
  proof (cases kvs)
    case Nil
    have "parse_value n' (wc @ f v @ (w2 @ CHR ''}'' # rest)) = Some (v, w2 @ CHR ''}'' # rest)"
      by (rule pv) (simp add: delimited_white Cons.prems(6))
    with Nil n kv show ?thesis
      by (simp add: quoted_def skip_ws_white_stop skip_ws_stop key Cons.prems(4,6))
  next
    case (Cons kv' kvs')
    let ?g = "\<lambda>kv. quoted esc (fst kv) @ CHR '':'' # wc @ f (snd kv)"
    let ?tail = "ws @ join (CHR '','' # ws) (map ?g kvs) @ w2 @ CHR ''}'' # rest"
    have "parse_value n' (wc @ f v @ (CHR '','' # ?tail)) = Some (v, CHR '','' # ?tail)"
      by (rule pv) simp
    moreover have "parse_members n' ?tail = Some (kvs, rest)"
    proof (rule Cons.IH)
      fix k v n w rest
      assume "(k, v) \<in> set kvs" "size v < n" "white w" "delimited rest"
      then show "parse_value n (w @ f v @ rest) = Some (v, rest)"
        using Cons.prems(1) [of k v n w rest] by simp
    qed (use skvs Cons Cons.prems in simp_all)
    ultimately show ?thesis using Cons n kv
      by (simp add: quoted_def skip_ws_white_stop skip_ws_stop key cons_fst_def Cons.prems(4))
  qed
qed

lemma parse_render:
  assumes L: "good_layout L"
  shows "size v < n \<Longrightarrow> white w \<Longrightarrow> delimited rest
           \<Longrightarrow> parse_value n (w @ render L d v @ rest) = Some (v, rest)"
proof (induction v arbitrary: n w rest d)
  case JNull
  then obtain n' where "n = Suc n'" by (cases n) auto
  with JNull show ?case
    by (simp add: skip_ws_white_stop dquote_def parse_word_def)
next
  case (JBool b)
  then obtain n' where "n = Suc n'" by (cases n) auto
  with JBool show ?case
    by (simp add: skip_ws_white_stop dquote_def parse_word_def)
next
  case (JNum i)
  then obtain n' where n: "n = Suc n'" by (cases n) auto
  obtain c cs where c: "show_int i = c # cs" "c = CHR ''-'' \<or> is_digit c"
    using show_int_head by blast
  then have nws: "\<not> is_ws c" by (auto simp: is_ws_def is_digit_def)
  have lead: "c \<noteq> CHR ''[''" "c \<noteq> CHR ''{''" "c \<noteq> dquote" "c \<noteq> CHR ''t''" "c \<noteq> CHR ''f''"
    "c \<noteq> CHR ''n''"
    using c(2) by (auto simp: is_digit_def dquote_def)
  have "parse_number (c # cs @ rest) = Some (JNum i, rest)"
    using parse_number_show_int [OF JNum.prems(3), of i] c(1) by simp
  with n c(1) nws lead JNum.prems(2) show ?case
    by (simp add: skip_ws_white_stop)
next
  case (JStr s)
  then obtain n' where "n = Suc n'" by (cases n) auto
  moreover have "parse_string (concat (map (escape L) s) @ dquote # rest) = Some (s, rest)"
    using parse_string_escaped L unfolding good_layout_def by blast
  ultimately show ?case using JStr.prems(2)
    by (simp add: quoted_def skip_ws_white_stop dquote_def)
next
  case (JArr xs)
  then obtain n' where n: "n = Suc n'" by (cases n) auto
  show ?case
  proof (cases "xs = []")
    case True
    with n JArr.prems(2) show ?thesis
      by (simp add: skip_ws_white_stop skip_ws_stop)
  next
    case False
    let ?cs = "after_open L d @ join (CHR '','' # after_comma L d) (map (render L (Suc d)) xs)
                 @ before_close L d @ CHR '']'' # rest"
    have wh: "white (after_open L d)" "white (after_comma L d)" "white (before_close L d)"
      using L unfolding good_layout_def by auto
    obtain x xs' where xs: "xs = x # xs'" using False by (cases xs) auto
    obtain c cs where hd: "render L (Suc d) x = c # cs" "\<not> is_ws c" "c \<noteq> CHR '']''"
      using render_head by blast
    obtain tail where "join (CHR '','' # after_comma L d) (map (render L (Suc d)) xs)
                         = render L (Suc d) x @ tail"
      using join_map_Cons [of "CHR '','' # after_comma L d" "render L (Suc d)" x xs'] xs by blast
    then have first: "skip_ws ?cs = c # cs @ tail @ before_close L d @ CHR '']'' # rest"
      using hd wh(1) by (simp add: skip_ws_white_stop)
    have "size_list size xs < n'" using JArr.prems(1) n by simp
    then have "parse_elements n' ?cs = Some (xs, rest)"
      using parse_elements_join [of xs "render L (Suc d)" n' "after_open L d" "after_comma L d"
              "before_close L d" rest] JArr.IH False wh
      by blast
    with n False first hd(3) JArr.prems(2) show ?thesis
      by (simp add: skip_ws_white_stop del: parse_elements.simps)
  qed
next
  case (JObj kvs)
  then obtain n' where n: "n = Suc n'" by (cases n) auto
  show ?case
  proof (cases "kvs = []")
    case True
    with n JObj.prems(2) show ?thesis
      by (simp add: skip_ws_white_stop skip_ws_stop)
  next
    case False
    let ?g = "\<lambda>kv. quoted (escape L) (fst kv) @ CHR '':'' # after_colon L @ render L (Suc d) (snd kv)"
    let ?cs = "after_open L d @ join (CHR '','' # after_comma L d) (map ?g kvs)
                 @ before_close L d @ CHR ''}'' # rest"
    have wh: "white (after_open L d)" "white (after_comma L d)" "white (before_close L d)"
      "white (after_colon L)" and esc: "escape_ok (escape L)"
      using L unfolding good_layout_def by auto
    obtain kv kvs' where kvs: "kvs = kv # kvs'" using False by (cases kvs) auto
    obtain tail where "join (CHR '','' # after_comma L d) (map ?g kvs) = ?g kv @ tail"
      using join_map_Cons [of "CHR '','' # after_comma L d" ?g kv kvs'] kvs by blast
    then have first: "\<exists>cs. skip_ws ?cs = dquote # cs"
      using wh(1) by (simp add: quoted_def skip_ws_white_stop)
    have IH: "\<And>k v n w rest. (k, v) \<in> set kvs \<Longrightarrow> size v < n \<Longrightarrow> white w \<Longrightarrow> delimited rest
                \<Longrightarrow> parse_value n (w @ render L (Suc d) v @ rest) = Some (v, rest)"
      using JObj.IH by force
    have "size_list (size_prod (\<lambda>x. 0) size) kvs < n'" using JObj.prems(1) n by simp
    then have "parse_members n' ?cs = Some (kvs, rest)"
      using parse_members_join [OF esc, of kvs "render L (Suc d)" n' "after_open L d"
              "after_comma L d" "before_close L d" "after_colon L" rest] IH False wh
      by blast
    with n False first JObj.prems(2) show ?thesis
      by (auto simp: skip_ws_white_stop dquote_def simp del: parse_members.simps)
  qed
qed


lemma length_join_elements:
  assumes "\<And>x. x \<in> set xs \<Longrightarrow> size x \<le> length (f x)"
  shows "size_list size xs \<le> length (join (c # sep) (map f xs)) + 1"
  using assms
proof (induction xs)
  case Nil
  show ?case by simp
next
  case (Cons x xs)
  then have "size x \<le> length (f x)" and "size_list size xs \<le> length (join (c # sep) (map f xs)) + 1"
    by auto
  then show ?case by (cases xs) auto
qed

lemma length_join_members:
  assumes "\<And>k v. (k, v) \<in> set kvs \<Longrightarrow> size v \<le> length (f v)"
  shows "size_list (size_prod (\<lambda>x. 0) size) kvs
           \<le> length (join (c # sep) (map (\<lambda>kv. quoted esc (fst kv) @ CHR '':'' # wc @ f (snd kv)) kvs)) + 1"
  using assms
proof (induction kvs)
  case Nil
  show ?case by simp
next
  case (Cons kv kvs)
  obtain k v where kv: "kv = (k, v)" by (cases kv)
  with Cons have "size v \<le> length (f v)"
    and "size_list (size_prod (\<lambda>x. 0) size) kvs
           \<le> length (join (c # sep) (map (\<lambda>kv. quoted esc (fst kv) @ CHR '':'' # wc @ f (snd kv)) kvs)) + 1"
    by auto
  then show ?case using kv by (cases kvs) (auto simp: quoted_def)
qed

lemma size_le_length_render: "size v \<le> length (render L d v)"
proof (induction v arbitrary: d)
  case (JArr xs)
  show ?case
  proof (cases "xs = []")
    case True
    then show ?thesis by simp
  next
    case False
    have "size_list size xs
            \<le> length (join (CHR '','' # after_comma L d) (map (render L (Suc d)) xs)) + 1"
      by (rule length_join_elements) (rule JArr.IH)
    with False show ?thesis by simp
  qed
next
  case (JObj kvs)
  show ?case
  proof (cases "kvs = []")
    case True
    then show ?thesis by simp
  next
    case False
    have "size_list (size_prod (\<lambda>x. 0) size) kvs
            \<le> length (join (CHR '','' # after_comma L d)
                 (map (\<lambda>kv. quoted (escape L) (fst kv) @ CHR '':'' # after_colon L
                               @ render L (Suc d) (snd kv)) kvs)) + 1"
    proof (rule length_join_members)
      fix k v
      assume "(k, v) \<in> set kvs"
      then show "size v \<le> length (render L (Suc d) v)"
        using JObj.IH [of "(k, v)" v "Suc d"] by simp
    qed
    with False show ?thesis by simp
  qed
qed simp_all

lemma json_parse_render:
  assumes "good_layout L" and "white w"
  shows "json_parse (render L d v @ w) = Some v"
proof -
  have "delimited w"
    using delimited_white [OF assms(2), of "[]"] by simp
  moreover have "size v < Suc (length (render L d v @ w))"
    using size_le_length_render [of v L d] by simp
  ultimately have "parse_value (Suc (length (render L d v @ w))) ([] @ render L d v @ w) = Some (v, w)"
    by (intro parse_render [OF assms(1)]) simp_all
  then show ?thesis
    by (simp add: json_parse_def skip_ws_only_white assms(2))
qed

lemma white_indent2: "white (indent2 d)"
  by (simp add: white_def indent2_def is_ws_def newline_def)

lemma good_compact_layout: "good_layout compact_layout"
  by (simp add: good_layout_def compact_layout_def js_escape_ok)

lemma good_pretty_layout: "good_layout pretty_layout"
  by (simp add: good_layout_def pretty_layout_def js_escape_ok white_indent2)
     (simp add: white_def is_ws_def)

lemma good_python_layout: "good_layout python_layout"
  by (simp add: good_layout_def python_layout_def py_escape_ok)
     (simp add: white_def is_ws_def)

lemma json_loads_console_log: "json_loads (console_log (JSON_stringify_2 v)) = Some v"
  unfolding json_loads_def console_log_def JSON_stringify_2_def
  by (rule json_parse_render [OF good_pretty_layout]) (simp add: white_def is_ws_def newline_def)

lemma json_parse_JSON_stringify: "json_parse (JSON_stringify v) = Some v"
  using json_parse_render [OF good_compact_layout, of "[]" 0 v]
  by (simp add: JSON_stringify_def)

lemma json_parse_json_dumps: "json_parse (json_dumps v) = Some v"
  using json_parse_render [OF good_python_layout, of "[]" 0 v]
  by (simp add: json_dumps_def)

section \<open>Properties of call_mcp_tool\<close>

lemma call_mcp_tool_unfold:
  "call_mcp_tool os tool_name params w =
     (case try_body os (staged_script os tool_name params) w of
        (Inl e, w') \<Rightarrow>
          if class_of e = TimeoutExpired
          then (Inr (JObj [(''error'', JStr ''MCP call timed out'')]), w')
          else (Inr (JObj [(''error'', JStr (''Unexpected error: '' @ str_exn e))]), w')
      | (Inr v, w') \<Rightarrow> (Inr v, w'))"
  by (simp add: call_mcp_tool_def staged_script_def Let_def)

lemmas machine_defs =
  call_mcp_tool_unfold try_body_def subprocess_run_def working_os_def plain_os_def
  mcp_script_def node_exits_def quiet_world_def Let_def




subsection \<open>A non-zero exit code\<close>

text \<open>
  The claim C2 reads: when the child process exits with a non-zero code, the call returns
  an error value with the child's stderr and the exit code, and does not scan the child's
  stdout. For the MCP server it fails: the server below exits with code 1 and \<^verbatim>\<open>boom\<close>
  on its stderr, the close handler scans its stdout all the same, node exits with code 0,
  and the call returns the result the server printed.
\<close>

theorem server_exit_code_ignored:
  "fst (call_mcp_tool (working_os crashed_server) ''simpletask_get_tasks'' [] quiet_world)
     = Inr (JObj [(''ok'', JBool True)])"
  by code_simp

text \<open>
  C2, amended. When the node process that the call starts exits within the timeout with
  a return code other than 0, the call returns the mapping with \<^verbatim>\<open>"MCP call failed: "\<close>
  followed by that process's stderr, and its return code; its stdout is not read. The
  exit code of the MCP server is not read by the staged script: its run is the same for
  every exit code of the server.
\<close>

theorem nonzero_exit_of_node:
  assumes "NamedTemporaryFile os = Inr script_path"
    and "write_error os = None"
    and "unlink_error os = None"
    and "ending (node os (staged_script os tool_name params)) = Exits_after t returncode out err"
    and "t \<le> 30"
    and "returncode \<noteq> 0"
  shows "fst (call_mcp_tool os tool_name params w)
           = Inr (JObj [(''error'', JStr (''MCP call failed: '' @ err)),
                        (''return_code'', JNum returncode)])
         \<and> mcp_script parse (Server_closes t' code out' errs)
           = mcp_script parse (Server_closes t' None out' errs)"
  using assms
  by (simp add: call_mcp_tool_unfold try_body_def subprocess_run_def Let_def mcp_script_def)

theorem nonzero_exit_of_node_witness:
  "fst (call_mcp_tool (plain_os (node_exits 1 [] ''boom'')) ''simpletask_get_tasks'' [] quiet_world)
     = Inr (JObj [(''error'', JStr ''MCP call failed: boom''), (''return_code'', JNum 1)])"
  using nonzero_exit_of_node
          [of "plain_os (node_exits 1 [] ''boom'')" "''/tmp/tmpk3v9x2.js''"
              "''simpletask_get_tasks''" "[]" 1 1 "[]" "''boom''" quiet_world]
  by (simp add: plain_os_def node_exits_def)

subsection \<open>The timeout\<close>

text \<open>
  The claim C3 reads: when the timeout fires, the process is killed, the call returns a
  timeout error, and no process survives the call. With a server that never closes, the
  call returns the timeout error and the server is still running afterwards: only node
  was killed.
\<close>

theorem server_survives_timeout:
  "fst (call_mcp_tool (working_os Server_hangs) ''simpletask_get_tasks'' [] quiet_world)
     = Inr (JObj [(''error'', JStr ''MCP call timed out'')])
   \<and> Mcp_server \<in> procs (snd (call_mcp_tool (working_os Server_hangs) ''simpletask_get_tasks'' []
                              quiet_world))"
  by (simp add: machine_defs)

text \<open>
  C3, amended. When the node process has not exited within 30 seconds, the call returns
  the mapping \<^verbatim>\<open>{"error": "MCP call timed out"}\<close> and the node process is not running
  afterwards. The processes that node had started and that were alive when the timeout
  fired (the MCP server) are all still running after the call.
\<close>

theorem timeout_kills_node_only:
  assumes "NamedTemporaryFile os = Inr script_path"
    and "write_error os = None"
    and "times_out (node os (staged_script os tool_name params))"
  shows "fst (call_mcp_tool os tool_name params w) = Inr (JObj [(''error'', JStr ''MCP call timed out'')])
         \<and> Node_script \<notin> procs (snd (call_mcp_tool os tool_name params w))
         \<and> alive_at_timeout (node os (staged_script os tool_name params)) - {Node_script}
             \<subseteq> procs (snd (call_mcp_tool os tool_name params w))"
  using assms
  by (auto simp: call_mcp_tool_unfold try_body_def subprocess_run_def Let_def times_out_def
      split: child_end.splits)

theorem timeout_kills_node_only_witness:
  "times_out (node (working_os Server_hangs) (staged_script (working_os Server_hangs) ''simpletask_get_tasks'' []))
   \<and> fst (call_mcp_tool (working_os Server_hangs) ''simpletask_get_tasks'' [] quiet_world)
       = Inr (JObj [(''error'', JStr ''MCP call timed out'')])
   \<and> Node_script \<notin> procs (snd (call_mcp_tool (working_os Server_hangs) ''simpletask_get_tasks'' []
                               quiet_world))"
  using timeout_kills_node_only
          [of "working_os Server_hangs" "''/tmp/tmpk3v9x2.js''" "''simpletask_get_tasks''" "[]"
              quiet_world]
  by (simp add: working_os_def plain_os_def mcp_script_def times_out_def)

subsection \<open>The temporary file\<close>

lemma temp_file_removed_after_exit:
  assumes "NamedTemporaryFile os = Inr script_path"
    and "write_error os = None"
    and "unlink_error os = None"
    and "ending (node os (staged_script os tool_name params)) = Exits_after t returncode out err"
    and "t \<le> 30"
  shows "files (snd (call_mcp_tool os tool_name params w)) script_path = None"
  using assms
  by (simp add: call_mcp_tool_unfold try_body_def subprocess_run_def Let_def
      split: option.splits)

lemma temp_file_left_when_run_raises:
  assumes "NamedTemporaryFile os = Inr script_path"
    and "write_error os = None"
    and "times_out (node os (staged_script os tool_name params))
         \<or> (\<exists>e. ending (node os (staged_script os tool_name params)) = Launch_fails e)"
  shows "files (snd (call_mcp_tool os tool_name params w)) script_path
           = Some (staged_script os tool_name params)"
  using assms
  by (auto simp: call_mcp_tool_unfold try_body_def subprocess_run_def Let_def times_out_def
      split: child_end.splits)

text \<open>
  C4. The claim reads: the temporary script file is removed before the call returns, on
  every exit path. On the timeout path the code skips \<^verbatim>\<open>os.unlink\<close> (line 94 comes after
  \<^verbatim>\<open>subprocess.run\<close>, inside the \<^verbatim>\<open>try\<close>): after the call has returned its timeout
  error, the file is still there, with the script in it.
\<close>

theorem temp_file_left_on_timeout:
  "fst (call_mcp_tool (working_os Server_hangs) ''simpletask_get_tasks'' [] quiet_world)
     = Inr (JObj [(''error'', JStr ''MCP call timed out'')])
   \<and> files (snd (call_mcp_tool (working_os Server_hangs) ''simpletask_get_tasks'' [] quiet_world))
        ''/tmp/tmpk3v9x2.js''
     = Some (staged_script (working_os Server_hangs) ''simpletask_get_tasks'' [])"
  by (simp add: machine_defs)

subsection \<open>The scan of the server's output\<close>

lemma scan_skips:
  assumes "\<forall>l \<in> set before. \<not> qualifies parse l"
  shows "scan parse (before @ rest) = scan parse rest"
  using assms
  by (induction before)
     (auto simp: qualifies_def split: option.splits js_lookup.splits)

lemma scan_first:
  assumes "\<forall>l \<in> set before. \<not> qualifies parse l"
    and "parse line = Some parsed" and "result_of parsed = Found r" and "js_truthy r"
  shows "scan parse (before @ line # after) = Some r"
  using assms by (simp add: scan_skips)

lemma scan_none:
  assumes "\<forall>l \<in> set lines. \<not> qualifies parse l"
  shows "scan parse lines = None"
  using scan_skips [OF assms, of "[]"] by simp

lemma call_after_close:
  assumes "NamedTemporaryFile os = Inr script_path"
    and "write_error os = None"
    and "unlink_error os = None"
    and "node os (staged_script os tool_name params) = mcp_script parse (Server_closes t code out errs)"
    and "t \<le> 30"
  shows "fst (call_mcp_tool os tool_name params w)
           = (case json_loads (on_close parse out) of
                Some v \<Rightarrow> Inr v
              | None \<Rightarrow> Inr (JObj [(''error'', JStr ''Failed to parse MCP response''),
                                    (''raw_output'', JStr (on_close parse out))]))"
  using assms
  by (simp add: call_mcp_tool_unfold try_body_def subprocess_run_def Let_def mcp_script_def
      split: option.splits)

text \<open>
  The claim C1 reads: the first line that parses as JSON and contains a \<^verbatim>\<open>result\<close> key
  gives the returned value. The first line of the server below parses and has the key,
  with the value 0; the call returns the result of the second line.
\<close>

theorem falsy_result_skipped:
  "json_parse first_answer
     = Some (JObj [(''jsonrpc'', JStr ''2.0''), (''id'', JNum 1), (''result'', JNum 0)])
   \<and> fst (call_mcp_tool (working_os two_answers) ''simpletask_get_tasks'' [] quiet_world)
       = Inr (JObj [(''a'', JNum 1)])"
  by code_simp

text \<open>
  C1, amended. When the server's \<^verbatim>\<open>close\<close> event arrives in time, its stdout is split
  into lines and scanned in order, and the call returns the \<^verbatim>\<open>result\<close> of the first line
  that parses as JSON and whose \<^verbatim>\<open>result\<close> is truthy (present, and not \<^verbatim>\<open>null\<close>,
  \<^verbatim>\<open>false\<close>, \<^verbatim>\<open>0\<close> or the empty string), whatever the lines before it (none of which
  qualifies) and after it are.
\<close>

theorem first_truthy_result_returned:
  assumes "NamedTemporaryFile os = Inr script_path"
    and "write_error os = None"
    and "unlink_error os = None"
    and "node os (staged_script os tool_name params) = mcp_script parse (Server_closes t code out errs)"
    and "t \<le> 30"
    and "script_lines out = before @ line # after"
    and "\<forall>l \<in> set before. \<not> qualifies parse l"
    and "parse line = Some parsed"
    and "result_of parsed = Found r"
    and "js_truthy r"
  shows "fst (call_mcp_tool os tool_name params w) = Inr r"
proof -
  have "scan parse (script_lines out) = Some r"
    using scan_first [OF assms(7-10)] assms(6) by simp
  then have "on_close parse out = console_log (JSON_stringify_2 r)"
    by (simp add: on_close_def)
  then show ?thesis
    using call_after_close [OF assms(1-5)] by (simp add: json_loads_console_log)
qed

theorem first_truthy_result_returned_witness:
  "fst (call_mcp_tool (working_os chatty_server) ''simpletask_get_tasks'' [] quiet_world)
     = Inr (JObj [(''content'', JArr [])])"
proof -
  have l: "script_lines chatty_output = [''server listening''] @ chatty_answer # [''done'', late_answer]"
    by code_simp
  have b: "\<forall>l \<in> set [''server listening'']. \<not> qualifies json_parse l"
    by code_simp
  have p: "json_parse chatty_answer
             = Some (JObj [(''jsonrpc'', JStr ''2.0''), (''id'', JNum 1),
                           (''result'', JObj [(''content'', JArr [])])])"
    by code_simp
  have r: "result_of (JObj [(''jsonrpc'', JStr ''2.0''), (''id'', JNum 1),
                            (''result'', JObj [(''content'', JArr [])])])
             = Found (JObj [(''content'', JArr [])])"
    by code_simp
  show ?thesis
    by (rule first_truthy_result_returned
               [where script_path = "''/tmp/tmpk3v9x2.js''" and parse = json_parse and t = 2
                  and code = "Some 0" and out = chatty_output and errs = "[''warming up'']",
                OF _ _ _ _ _ l b p r])
       (simp_all add: working_os_def plain_os_def chatty_server_def)
qed

text \<open>
  The claim C5 reads: when no line qualifies, the error message is \<^verbatim>\<open>no result found\<close>.
  The message the script prints, and the call returns, is another one.
\<close>

theorem no_result_message:
  "fst (call_mcp_tool (working_os silent_server) ''simpletask_get_tasks'' [] quiet_world)
     = Inr (JObj [(''error'', JStr ''No valid response found''),
                  (''raw_output'', JStr ''server listening\<newline>'')])
   \<and> ''No valid response found'' \<noteq> ''no result found''"
  by code_simp

text \<open>
  C5, amended. When the server's \<^verbatim>\<open>close\<close> event arrives in time and no line of its
  stdout parses as JSON with a truthy \<^verbatim>\<open>result\<close>, the call returns the mapping with
  \<^verbatim>\<open>"error": "No valid response found"\<close> and, under \<^verbatim>\<open>"raw_output"\<close>, the whole stdout
  of the server, character for character.
\<close>

theorem no_result_returns_raw_output:
  assumes "NamedTemporaryFile os = Inr script_path"
    and "write_error os = None"
    and "unlink_error os = None"
    and "node os (staged_script os tool_name params) = mcp_script parse (Server_closes t code out errs)"
    and "t \<le> 30"
    and "\<forall>l \<in> set (script_lines out). \<not> qualifies parse l"
  shows "fst (call_mcp_tool os tool_name params w)
           = Inr (JObj [(''error'', JStr ''No valid response found''), (''raw_output'', JStr out)])"
proof -
  have "scan parse (script_lines out) = None"
    using scan_none [OF assms(6)] .
  then have "on_close parse out
               = console_log (JSON_stringify_2
                   (JObj [(''error'', JStr ''No valid response found''), (''raw_output'', JStr out)]))"
    by (simp add: on_close_def)
  then show ?thesis
    using call_after_close [OF assms(1-5)] by (simp add: json_loads_console_log)
qed

theorem no_result_returns_raw_output_witness:
  "fst (call_mcp_tool (working_os silent_server) ''simpletask_search_tasks'' [] quiet_world)
     = Inr (JObj [(''error'', JStr ''No valid response found''),
                  (''raw_output'', JStr ''server listening\<newline>'')])"
proof -
  have q: "\<forall>l \<in> set (script_lines ''server listening\<newline>''). \<not> qualifies json_parse l"
    by code_simp
  show ?thesis
    by (rule no_result_returns_raw_output
               [where script_path = "''/tmp/tmpk3v9x2.js''" and parse = json_parse and t = 1
                  and code = "Some 0" and errs = "[]", OF _ _ _ _ _ q])
       (simp_all add: working_os_def plain_os_def silent_server_def)
qed

section \<open>Properties of the tool functions\<close>

subsection \<open>No division by zero\<close>

lemma nzd_Inr [simp]: "no_zero_division (Inr x)"
  by (simp add: no_zero_division_def)

lemma nzd_raise [simp]: "c \<noteq> ZeroDivisionError \<Longrightarrow> no_zero_division (raise c m)"
  by (simp add: no_zero_division_def raise_def)

lemma nzd_bind:
  assumes "no_zero_division m" and "\<And>x. m = Inr x \<Longrightarrow> no_zero_division (f x)"
  shows "no_zero_division (py_bind m f)"
  using assms by (cases m) (simp_all add: py_bind_def no_zero_division_def)

lemma nzd_foldM:
  assumes "\<And>s x. no_zero_division (f s x)"
  shows "no_zero_division (py_foldM f s xs)"
proof (induction xs arbitrary: s)
  case Nil
  show ?case by simp
next
  case (Cons x xs)
  show ?case
  proof (cases "f s x")
    case (Inl e)
    with assms [of s x] show ?thesis by (simp add: no_zero_division_def)
  next
    case (Inr s')
    with Cons show ?thesis by simp
  qed
qed

lemma nzd_case_prod:
  assumes "\<And>a b. no_zero_division (f a b)"
  shows "no_zero_division (case p of (a, b) \<Rightarrow> f a b)"
  using assms by (cases p) simp

lemma nzd_if:
  assumes "c \<Longrightarrow> no_zero_division a" and "\<not> c \<Longrightarrow> no_zero_division b"
  shows "no_zero_division (if c then a else b)"
  using assms by simp

lemma nzd_case_option:
  assumes "x = None \<Longrightarrow> no_zero_division a" and "\<And>y. x = Some y \<Longrightarrow> no_zero_division (f y)"
  shows "no_zero_division (case x of None \<Rightarrow> a | Some y \<Rightarrow> f y)"
  using assms by (cases x) simp_all

lemmas nzd_intros = nzd_bind nzd_foldM nzd_case_prod nzd_if nzd_case_option

lemma nzd_primitives [simp]:
  "no_zero_division (py_contains k v)"
  "no_zero_division (py_getitem v k)"
  "no_zero_division (py_first v)"
  "no_zero_division (py_len v)"
  "no_zero_division (py_get v k d)"
  "no_zero_division (py_iter v)"
  "no_zero_division (str_method name v)"
  "no_zero_division (py_slice_to n v)"
  "no_zero_division (hashable v)"
  "no_zero_division (loads_value v)"
  by (auto simp: py_contains_def py_getitem_def py_first_def py_len_def py_get_def py_iter_def
        str_method_def py_slice_to_def hashable_def loads_value_def
      split: json.splits option.splits list.splits)

lemma nzd_count_up [simp]: "no_zero_division (count_up k counts)"
  unfolding count_up_def by (intro nzd_intros) simp_all

lemma nzd_sorted_items [simp]: "no_zero_division (sorted_items items)"
  by (simp add: sorted_items_def)

lemma nzd_content_text [simp]: "no_zero_division (content_text data)"
  unfolding content_text_def
  by (intro nzd_intros) simp_all

lemma nzd_lines_of:
  assumes "\<And>x. no_zero_division (f x)"
  shows "no_zero_division (lines_of f xs)"
  unfolding lines_of_def
  by (intro nzd_intros assms) simp

lemma dict_set_not_empty: "dict_set k v d \<noteq> []"
  by (cases d) simp_all

lemma as_dict_not_empty: "kvs \<noteq> [] \<Longrightarrow> as_dict kvs \<noteq> []"
proof (induction kvs rule: rev_induct)
  case Nil
  then show ?case by simp
next
  case (snoc kv kvs)
  show ?case by (simp add: as_dict_def dict_set_not_empty)
qed

text \<open>A truthy value that has a length has a positive one.\<close>

lemma truthy_len_positive:
  assumes "py_truthy v" and "py_len v = Inr n"
  shows "0 < n"
  using assms as_dict_not_empty
  by (cases v) (auto simp: py_len_def raise_def)

lemma nzd_truediv: "0 < b \<Longrightarrow> no_zero_division (py_truediv a b)"
  by (simp add: py_truediv_def)

lemma nzd_percentage [simp]: "no_zero_division (percentage items count)"
  unfolding percentage_def
  by (auto intro!: nzd_bind nzd_truediv dest: truthy_len_positive)

lemma nzd_count_tasks: "no_zero_division (count_tasks tasks)"
  unfolding count_tasks_def
proof (rule nzd_foldM)
  fix s :: "(json \<times> nat) list \<times> (json \<times> nat) list" and task
  obtain status_counts priority_counts where "s = (status_counts, priority_counts)"
    by (cases s)
  then show "no_zero_division
     ((case s of (status_counts, priority_counts) \<Rightarrow> \<lambda>task.
        py_bind (py_get task ''status'' (JStr ''unknown'')) (\<lambda>status.
        py_bind (py_get task ''priority'' (JStr ''unknown'')) (\<lambda>priority.
        py_bind (count_up status status_counts) (\<lambda>status_counts'.
        py_bind (count_up priority priority_counts) (\<lambda>priority_counts'.
        Inr (status_counts', priority_counts')))))) task)"
    by (simp, intro nzd_intros) simp_all
qed

lemma nzd_overview: "no_zero_division (overview fmt project_name items total_count)"
  unfolding overview_def status_line_def priority_line_def high_priority_line_def
  by (intro nzd_intros nzd_lines_of nzd_count_tasks) simp_all

lemma nzd_overview_of: "no_zero_division (overview_of fmt project_name summary_data)"
  unfolding overview_of_def
  by (intro nzd_intros nzd_overview) simp_all

lemma nzd_member_lines: "no_zero_division (member_lines p)"
  unfolding member_lines_def
  by (intro nzd_intros) simp_all

lemma nzd_assign_task: "no_zero_division (assign_task state task)"
  unfolding assign_task_def Let_def
  by (intro nzd_intros) simp_all

lemma nzd_workload_report:
  assumes "py_truthy items"
  shows "no_zero_division (workload_report fmt items)"
  unfolding workload_report_def
proof (rule nzd_bind)
  show "no_zero_division (py_len items)" by simp
next
  fix total_tasks
  assume "py_len items = Inr total_tasks"
  with assms have "0 < total_tasks" by (rule truthy_len_positive)
  then have "\<And>unassigned_count. no_zero_division (py_truediv unassigned_count total_tasks)"
    by (rule nzd_truediv)
  then show "no_zero_division
     (py_bind (py_iter items) (\<lambda>tasks.
      py_bind (py_foldM assign_task ([], 0) tasks) (\<lambda>(workload, unassigned_count).
      py_bind (py_truediv unassigned_count total_tasks) (\<lambda>q.
      py_bind (py_foldM (\<lambda>lines p. py_bind (member_lines p) (\<lambda>ls. Inr (lines @ ls))) []
                 (sort_by (\<lambda>y x. all_tasks (snd x) \<le> all_tasks (snd y)) workload)) (\<lambda>lines.
      Inr (join backslash_n
        ([''# Team Workload Analysis'',
          ''**Total Active Tasks**: '' @ show_int (int total_tasks),
          ''**Unassigned Tasks**: '' @ show_int (int unassigned_count) @ '' ('' @ fmt (q * 100) @ ''%)'',
          ''**Data Source**: aitistra.com API'',
          [],
          ''## Individual Workloads:'',
          []]
         @ lines)))))))"
    by (intro nzd_intros nzd_assign_task nzd_member_lines) simp_all
qed

lemma nzd_workload_of: "no_zero_division (workload_of fmt tasks_data)"
  unfolding workload_of_def
  by (intro nzd_intros nzd_workload_report) simp_all

text \<open>
  C10. No percentage computation of the formatters divides by zero. In
  \<^verbatim>\<open>get_simple_task_overview\<close> the percentage of empty items is 0 and the division is
  never by zero, whatever the items are; what the function makes of any value from the
  bridge raises no ZeroDivisionError. In \<^verbatim>\<open>analyze_team_workload\<close> the division by
  \<^verbatim>\<open>total_tasks\<close> comes after the early return for falsy items, and what the function
  makes of any value from the bridge raises no ZeroDivisionError.
\<close>

theorem no_percentage_divides_by_zero:
  "percentage (JArr []) count = Inr 0
   \<and> percentage (JArr (task # tasks)) count = Inr (of_nat count / of_nat (Suc (length tasks)) * 100)
   \<and> no_zero_division (percentage items count)
   \<and> no_zero_division (overview_of fmt project_name summary_data)
   \<and> no_zero_division (workload_of fmt tasks_data)"
  by (simp add: nzd_overview_of nzd_workload_of)
     (simp add: percentage_def py_len_def py_truediv_def py_bind_def)

subsection \<open>Every tool function returns a string\<close>

lemma except_Exception_returns: "\<exists>s. except_Exception prefix body = Inr s"
  by (cases body) (simp_all add: except_Exception_def)

lemma raised_by_bridge:
  "get_simple_task_overview fmt (\<lambda>tool_name params. Inl e) project_name
     = Inr (''Error analyzing tasks: '' @ str_exn e)"
  "get_blocked_tasks (\<lambda>tool_name params. Inl e) project_name
     = Inr (''Error analyzing blocked tasks: '' @ str_exn e)"
  "get_high_priority_tasks (\<lambda>tool_name params. Inl e) project_name
     = Inr (''Error analyzing high priority tasks: '' @ str_exn e)"
  "switch_project (\<lambda>tool_name params. Inl e) name
     = Inr (''Error switching to project: '' @ str_exn e)"
  by (simp_all add: get_simple_task_overview_def get_blocked_tasks_def
        get_high_priority_tasks_def switch_project_def switch_project_body_def
        except_Exception_def py_bind_def)

text \<open>
  The claim C6 reads: every tool function takes zero or one string argument. The result
  of \<^verbatim>\<open>search_tasks\<close> depends on two: the query and the project name.
\<close>

theorem search_tasks_takes_two_arguments:
  "search_tasks failing_bridge ''bug'' None = Inr ''Error searching tasks: down''
   \<and> search_tasks failing_bridge ''bug'' (Some ''alpha'')
       = Inr ''Project switch failed: Error switching to project: down''"
  by code_simp

text \<open>
  C6, amended. Each of the seven tool functions takes at most one string (the project
  name, which all but \<^verbatim>\<open>switch_project\<close> may omit), except \<^verbatim>\<open>search_tasks\<close>, which takes
  the query and an optional project name. For every argument and every behaviour of the
  bridge, a returned value of any shape or a raised exception, each of them returns a
  string: no exception escapes.
\<close>

theorem tool_functions_return_strings:
  "(\<exists>s. get_simple_task_overview fmt call project_name = Inr s)
   \<and> (\<exists>s. get_blocked_tasks call project_name = Inr s)
   \<and> (\<exists>s. get_high_priority_tasks call project_name = Inr s)
   \<and> (\<exists>s. analyze_team_workload fmt call project_name = Inr s)
   \<and> (\<exists>s. search_tasks call query project_name = Inr s)
   \<and> (\<exists>s. get_project_info call project_name = Inr s)
   \<and> (\<exists>s. switch_project call name = Inr s)"
  unfolding get_simple_task_overview_def get_blocked_tasks_def get_high_priority_tasks_def
    analyze_team_workload_def search_tasks_def get_project_info_def switch_project_def
  by (intro conjI except_Exception_returns)

subsection \<open>The overview of no tasks\<close>

text \<open>
  C8. The claim reads: for a content text that decodes to no items and a total count of
  0, the returned string begins with the line \<^verbatim>\<open># Simple Task Overview\<close> and reports
  \<^verbatim>\<open>**Total Tasks**: 0\<close>. The code joins its lines with a backslash and the letter n
  (\<^verbatim>\<open>"\\n".join\<close>, line 214), so the returned text has no line feed at all: split at
  line feeds, it is one line, the whole text.
\<close>

theorem overview_is_a_single_line:
  "get_simple_task_overview fmt (bridge_on (working_os overview_server) quiet_world) None
     = Inr empty_overview
   \<and> split newline empty_overview = [empty_overview]
   \<and> take 24 empty_overview = ''# Simple Task Overview'' @ backslash_n"
  by code_simp

section \<open>The request written to the server\<close>

lemma script_content_pieces:
  "script_content p t a
     = script_head @ p @ ''/index.js'' @ [squote] @ script_mid1 @ t @ [squote] @ script_mid2
         @ json_dumps (JObj a) @ script_tail"
  by (simp add: script_content_def script_head_def script_mid1_def script_mid2_def
        script_tail_def unlines_def squote_def)

lemma strip_prefix_append: "strip_prefix p (p @ r) = Some r"
  by (simp add: strip_prefix_def)

lemma js_string_body_clean:
  "clean s \<Longrightarrow> js_string_body (s @ squote # r) = Some (s, r)"
  by (induction s) (auto simp: clean_def cons_fst_def squote_def backslash_def)

lemma clean_append: "clean (a @ b) \<longleftrightarrow> clean a \<and> clean b"
  by (simp add: clean_def)

lemma clean_index_js: "clean ''/index.js''"
  by (simp add: clean_def squote_def backslash_def)

lemma digit_char_not_newline: "d < 10 \<Longrightarrow> digit_char d \<noteq> newline"
  using below_10_cases [of d] by (auto simp: digit_char_def newline_def)

lemma hex_char_not_newline: "d < 16 \<Longrightarrow> hex_char d \<noteq> newline"
  using below_16_cases [of d] by (auto simp: hex_char_def newline_def)

lemma digits_no_newline: "newline \<notin> set (digits n)"
proof
  assume "newline \<in> set (digits n)"
  then have "is_digit newline" by (rule digits_all_digit)
  then show False by (simp add: is_digit_def newline_def)
qed

lemma show_int_no_newline: "newline \<notin> set (show_int i)"
  by (simp add: show_int_def digits_no_newline) (simp add: newline_def)

lemma py_escape_no_newline: "newline \<notin> set (py_escape c)"
proof (cases "short_escape c")
  case None
  have "(of_char c :: nat) mod 16 < 16" by simp
  then have "hex_char (of_char c mod 16) \<noteq> newline" by (rule hex_char_not_newline)
  moreover have "hex_char (of_char c div 16) \<noteq> newline"
    using of_char_div_16 by (rule hex_char_not_newline)
  ultimately show ?thesis using None
    by (auto simp: py_escape_def u_escape_def newline_def backslash_def)
next
  case (Some e)
  then show ?thesis
    by (auto simp: py_escape_def short_escape_def newline_def backslash_def dquote_def
        split: if_splits)
qed

lemma not_newline [simp]:
  "dquote \<noteq> newline" "CHR '','' \<noteq> newline" "CHR '' '' \<noteq> newline" "CHR '':'' \<noteq> newline"
  "CHR ''['' \<noteq> newline" "CHR '']'' \<noteq> newline" "CHR ''{'' \<noteq> newline" "CHR ''}'' \<noteq> newline"
  "newline \<noteq> dquote" "newline \<noteq> CHR '','' " "newline \<noteq> CHR '' ''" "newline \<noteq> CHR '':''"
  "newline \<noteq> CHR ''[''" "newline \<noteq> CHR '']''" "newline \<noteq> CHR ''{''" "newline \<noteq> CHR ''}''"
  by (simp_all add: newline_def dquote_def)

lemma python_layout_simps [simp]:
  "escape python_layout = py_escape" "after_open python_layout d = []"
  "after_comma python_layout d = '' ''" "before_close python_layout d = []"
  "after_colon python_layout = '' ''"
  by (simp_all add: python_layout_def)

lemma quoted_py_no_newline: "newline \<notin> set (quoted py_escape s)"
  by (induction s) (auto simp: quoted_def py_escape_no_newline)

lemma join_no_newline:
  assumes "newline \<notin> set sep" and "\<And>x. x \<in> set xs \<Longrightarrow> newline \<notin> set x"
  shows "newline \<notin> set (join sep xs)"
  using assms by (induction sep xs rule: join.induct) auto

lemma python_render_no_newline: "newline \<notin> set (render python_layout d v)"
proof (induction v arbitrary: d)
  case JNull
  show ?case by (simp add: newline_def)
next
  case (JBool b)
  show ?case by (simp add: newline_def)
next
  case (JNum n)
  show ?case by (simp add: show_int_no_newline)
next
  case (JStr s)
  show ?case by (simp add: quoted_py_no_newline)
next
  case (JArr xs)
  have "newline \<notin> set (join ('','' @ after_comma python_layout d) (map (render python_layout (Suc d)) xs))"
    by (rule join_no_newline) (auto simp: JArr)
  then show ?case by auto
next
  case (JObj kvs)
  have "newline \<notin> set (join ('','' @ after_comma python_layout d)
          (map (\<lambda>kv. quoted (escape python_layout) (fst kv) @ '':'' @ after_colon python_layout
                        @ render python_layout (Suc d) (snd kv)) kvs))"
  proof (rule join_no_newline)
    show "newline \<notin> set ('','' @ after_comma python_layout d)"
      by simp
  next
    fix x
    assume "x \<in> set (map (\<lambda>kv. quoted (escape python_layout) (fst kv) @ '':'' @ after_colon python_layout
                        @ render python_layout (Suc d) (snd kv)) kvs)"
    then obtain kv where kv: "kv \<in> set kvs"
      and x: "x = quoted (escape python_layout) (fst kv) @ '':'' @ after_colon python_layout
                    @ render python_layout (Suc d) (snd kv)"
      by auto
    have "newline \<notin> set (render python_layout (Suc d) (snd kv))"
      using JObj [of kv "snd kv" "Suc d"] kv by (cases kv) auto
    then show "newline \<notin> set x"
      unfolding x by (simp add: quoted_py_no_newline)
  qed
  then show ?case by auto
qed

lemma json_dumps_one_line:
  "takeWhile (\<lambda>c. c \<noteq> newline) (json_dumps v @ script_tail) = json_dumps v"
  "dropWhile (\<lambda>c. c \<noteq> newline) (json_dumps v @ script_tail) = script_tail"
proof -
  have n: "\<forall>c \<in> set (json_dumps v). c \<noteq> newline"
    using python_render_no_newline [of 0 v] by (auto simp: json_dumps_def)
  obtain t where t: "script_tail = newline # t" by (simp add: script_tail_def)
  show "takeWhile (\<lambda>c. c \<noteq> newline) (json_dumps v @ script_tail) = json_dumps v"
    using n by (simp add: t takeWhile_append2)
  show "dropWhile (\<lambda>c. c \<noteq> newline) (json_dumps v @ script_tail) = script_tail"
    using n by (simp add: t dropWhile_append2)
qed


lemma dict_set_new: "k \<notin> fst ` set d \<Longrightarrow> dict_set k v d = d @ [(k, v)]"
  by (induction d) auto

lemma foldl_dict_set_distinct:
  "distinct (map fst (acc @ kvs))
     \<Longrightarrow> foldl (\<lambda>d kv. dict_set (fst kv) (snd kv) d) acc kvs = acc @ kvs"
proof (induction kvs arbitrary: acc)
  case Nil
  show ?case by simp
next
  case (Cons kv kvs)
  then have "fst kv \<notin> fst ` set acc" by auto
  then have "dict_set (fst kv) (snd kv) acc = acc @ [kv]"
    by (simp add: dict_set_new)
  moreover have "distinct (map fst ((acc @ [kv]) @ kvs))" using Cons.prems by simp
  ultimately show ?case using Cons.IH [of "acc @ [kv]"] by simp
qed

lemma as_dict_distinct: "distinct (map fst kvs) \<Longrightarrow> as_dict kvs = kvs"
  using foldl_dict_set_distinct [of "[]" kvs] by (simp add: as_dict_def)

lemma own_properties_plain:
  assumes "distinct (map fst kvs)"
    and "\<forall>kv \<in> set kvs. fst kv \<noteq> ''__proto__'' \<and> array_index (fst kv) = None"
  shows "own_properties kvs = kvs"
proof -
  have f: "filter (\<lambda>kv. fst kv \<noteq> ''__proto__'') kvs = kvs"
    using assms(2) by (simp add: filter_id_conv)
  have i: "filter (\<lambda>kv. array_index (fst kv) \<noteq> None) kvs = []"
    using assms(2) by (simp add: filter_empty_conv)
  have r: "filter (\<lambda>kv. array_index (fst kv) = None) kvs = kvs"
    using assms(2) by (simp add: filter_id_conv)
  have "own_properties kvs
          = sort_by (\<lambda>y x. the (array_index (fst y)) \<le> the (array_index (fst x)))
              (filter (\<lambda>kv. array_index (fst kv) \<noteq> None) kvs)
            @ filter (\<lambda>kv. array_index (fst kv) = None) kvs"
    unfolding own_properties_def Let_def f as_dict_distinct [OF assms(1)] ..
  also have "\<dots> = kvs"
    unfolding i r by (simp add: sort_by_def)
  finally show ?thesis .
qed

lemma all_some_map:
  assumes "\<And>x. x \<in> set xs \<Longrightarrow> f x = Some (g x)"
  shows "all_some (map f xs) = Some (map g xs)"
  using assms by (simp add: all_some_def list_all_iff)

lemma js_value_plain: "plain v \<Longrightarrow> js_value v = Some v"
proof (induction v)
  case (JArr xs)
  then have "all_some (map js_value xs) = Some (map (\<lambda>x. x) xs)"
    by (intro all_some_map) (simp add: list_all_iff)
  then show ?case by simp
next
  case (JObj kvs)
  have "all_some (map (\<lambda>kv. js_value (snd kv)) kvs) = Some (map snd kvs)"
  proof (rule all_some_map)
    fix kv
    assume in_kvs: "kv \<in> set kvs"
    obtain k v where kv: "kv = (k, v)" by (cases kv)
    have "plain v" using JObj.prems in_kvs kv by (auto simp: list_all_iff)
    then have "js_value v = Some v"
      using JObj.IH [of "(k, v)" v] in_kvs kv by simp
    then show "js_value (snd kv) = Some (snd kv)" using kv by simp
  qed
  moreover have "own_properties (zip (map fst kvs) (map snd kvs)) = kvs"
    using own_properties_plain [of kvs] JObj.prems by (simp add: list_all_iff zip_map_fst_snd)
  ultimately show ?case by simp
qed simp_all

lemma js_eval_json_dumps: "js_eval (json_dumps v) = js_value v"
  by (simp add: js_eval_def json_parse_json_dumps)

lemma script_values_of_content:
  assumes "clean p" and "clean t"
  shows "script_values (script_content p t a)
           = (case js_value (JObj a) of
                None \<Rightarrow> None
              | Some arguments \<Rightarrow> Some (p @ ''/index.js'', t, arguments))"
proof -
  have 1: "js_string_body ((p @ ''/index.js'') @ squote # r) = Some (p @ ''/index.js'', r)" for r
    by (rule js_string_body_clean) (simp add: clean_append assms(1) clean_index_js)
  have 2: "js_string_body (t @ squote # r) = Some (t, r)" for r
    by (rule js_string_body_clean) (rule assms(2))
  show ?thesis
    unfolding script_content_pieces script_values_def
    using 1 2
    by (simp add: strip_prefix_append json_dumps_one_line js_eval_json_dumps
          del: js_string_body.simps js_value.simps)
qed

lemma stdin_of_staged_script:
  assumes "clean (staged_path os)" and "clean tool_name"
  shows "stdin_of_script (staged_script os tool_name params)
           = (case js_value (JObj params) of
                None \<Rightarrow> None
              | Some arguments \<Rightarrow>
                  Some [Write (JSON_stringify (request tool_name arguments) @ [newline]), End])"
  using script_values_of_content [OF assms, of params]
  by (simp add: stdin_of_script_def staged_script_def staged_path_def split: option.splits)

text \<open>
  The claim C7 reads: for every tool name and every JSON-serializable arguments mapping
  the line written to the server's standard input carries the arguments, and parsing
  it back gives a value identical to the input. The arguments below are a mapping
  with the one key \<^verbatim>\<open>__proto__\<close>; \<^verbatim>\<open>json.dumps\<close> writes them into the script as an object
  literal, where that member sets the prototype, and the line written has the
  arguments \<^verbatim>\<open>{}\<close>.
\<close>

theorem proto_member_dropped:
  \<open>stdin_of_script (staged_script (working_os silent_server) ''simpletask_get_tasks'' proto_arguments)
     = Some [Write (''{"jsonrpc":"2.0","id":1,"method":"tools/call","params":{"name":"simpletask_get_tasks","arguments":{}}}''
                    @ [newline]), End]\<close>
proof -
  have c: "clean (staged_path (working_os silent_server))" "clean ''simpletask_get_tasks''"
    by code_simp+
  have v: "js_value (JObj proto_arguments) = Some (JObj [])"
    by code_simp
  have s: \<open>JSON_stringify (request ''simpletask_get_tasks'' (JObj []))
            = ''{"jsonrpc":"2.0","id":1,"method":"tools/call","params":{"name":"simpletask_get_tasks","arguments":{}}}''\<close>
    by code_simp
  have "stdin_of_script (staged_script (working_os silent_server) ''simpletask_get_tasks'' proto_arguments)
        = Some [Write (JSON_stringify (request ''simpletask_get_tasks'' (JObj [])) @ [newline]), End]"
    using stdin_of_staged_script [OF c, of proto_arguments]
    by (simp only: v option.case)
  then show ?thesis
    by (simp only: s)
qed

text \<open>
  C7, amended. When the server path and the tool name hold no single quote, backslash,
  carriage return or line feed, and the arguments are a mapping with distinct keys in
  every object, none of them \<^verbatim>\<open>__proto__\<close> or an array index, and integers of size up to
  \<open>2 ^ 53\<close>, the staged script writes to the server's standard input exactly one line,
  the compact JSON text of the request ended by a line feed, and then closes the
  stream; and parsing that line back gives the request with the tool name and the
  arguments that were passed.
\<close>

theorem request_line_round_trip:
  assumes "clean (staged_path os)" and "clean tool_name" and "plain (JObj params)"
  shows "stdin_of_script (staged_script os tool_name params)
           = Some [Write (JSON_stringify (request tool_name (JObj params)) @ [newline]), End]
         \<and> json_parse (JSON_stringify (request tool_name (JObj params)) @ [newline])
           = Some (JObj [(''jsonrpc'', JStr ''2.0''), (''id'', JNum 1), (''method'', JStr ''tools/call''),
                         (''params'', JObj [(''name'', JStr tool_name), (''arguments'', JObj params)])])"
proof -
  have "js_value (JObj params) = Some (JObj params)"
    using assms(3) by (rule js_value_plain)
  then have "stdin_of_script (staged_script os tool_name params)
          = Some [Write (JSON_stringify (request tool_name (JObj params)) @ [newline]), End]"
    using stdin_of_staged_script [OF assms(1,2), of params]
    by (simp del: js_value.simps)
  moreover have "json_parse (JSON_stringify (request tool_name (JObj params)) @ [newline])
                   = Some (request tool_name (JObj params))"
    unfolding JSON_stringify_def
    by (rule json_parse_render [OF good_compact_layout]) (simp add: white_def is_ws_def newline_def)
  ultimately show ?thesis
    by (simp add: request_def)
qed

theorem request_line_round_trip_witness:
  \<open>stdin_of_script (staged_script (working_os silent_server) ''simpletask_get_tasks'' example_arguments)
     = Some [Write (''{"jsonrpc":"2.0","id":1,"method":"tools/call","params":{"name":"simpletask_get_tasks","arguments":{"a":1,"b":[true,null]}}}''
                    @ [newline]), End]
   \<and> json_parse (''{"jsonrpc":"2.0","id":1,"method":"tools/call","params":{"name":"simpletask_get_tasks","arguments":{"a":1,"b":[true,null]}}}''
                    @ [newline])
     = Some (JObj [(''jsonrpc'', JStr ''2.0''), (''id'', JNum 1), (''method'', JStr ''tools/call''),
                   (''params'', JObj [(''name'', JStr ''simpletask_get_tasks''),
                                      (''arguments'', JObj [(''a'', JNum 1), (''b'', JArr [JBool True, JNull])])])])\<close>
proof -
  have c: "clean (staged_path (working_os silent_server))" "clean ''simpletask_get_tasks''"
    "plain (JObj example_arguments)"
    by code_simp+
  have s: \<open>JSON_stringify (request ''simpletask_get_tasks''
                             (JObj [(''a'', JNum 1), (''b'', JArr [JBool True, JNull])]))
            = ''{"jsonrpc":"2.0","id":1,"method":"tools/call","params":{"name":"simpletask_get_tasks","arguments":{"a":1,"b":[true,null]}}}''\<close>
    by code_simp
  have e: "JObj example_arguments = JObj [(''a'', JNum 1), (''b'', JArr [JBool True, JNull])]"
    by (simp add: example_arguments_def)
  show ?thesis
    using request_line_round_trip [OF c]
    by (simp only: e s)
qed

end
